theory Spec2Isabelle
  imports Complex_Main "HOL-Library.Word" "HOL-Library.Sublist"
begin

section \<open>Python values used by the scripts\<close>

text \<open>
  The two scripts \<^verbatim>\<open>bdbc_nwb_tools.py\<close> and \<^verbatim>\<open>sanity_check_nwb.py\<close> are embedded
  as HOL functions. An exception is a value of type \<open>error\<close>, and a function that can
  raise returns \<open>error + 'a\<close> with \<open>Inl\<close> for the exception.
\<close>

datatype error =
    KeyError string
  | AttributeError string
  | ValueError string
  | TypeError string "string list"
  | IndexError string
  | AssertionError string
  | FileNotFoundError string

fun bind :: "error + 'a \<Rightarrow> ('a \<Rightarrow> error + 'b) \<Rightarrow> error + 'b" where
  "bind (Inl e) f = Inl e"
| "bind (Inr x) f = f x"

fun lookup :: "('k \<times> 'v) list \<Rightarrow> 'k \<Rightarrow> 'v option" where
  "lookup [] k = None"
| "lookup ((k', v) # kvs) k = (if k' = k then Some v else lookup kvs k)"

text \<open>
  A Python \<open>dict\<close> is an association list in insertion order with one entry per key:
  assigning to a key that is present replaces its value and keeps its position.
\<close>

fun dict_set :: "('k \<times> 'v) list \<Rightarrow> 'k \<Rightarrow> 'v \<Rightarrow> ('k \<times> 'v) list" where
  "dict_set [] k v = [(k, v)]"
| "dict_set ((k', v') # kvs) k v =
     (if k' = k then (k, v) # kvs else (k', v') # dict_set kvs k v)"

definition getitem :: "(string \<times> 'v) list \<Rightarrow> string \<Rightarrow> error + 'v" where
  "getitem d k = (case lookup d k of None \<Rightarrow> Inl (KeyError k) | Some v \<Rightarrow> Inr v)"

subsection \<open>Strings\<close>

text \<open>
  A string is a list of bytes. An ASCII character is one byte whose top bit is clear; any
  other character of a Python string takes several bytes, each with its top bit set.
  \<open>str.lower\<close> and \<open>str.upper\<close> are modelled on ASCII strings, where they change the 26
  letters and nothing else. What Python does to a letter outside ASCII is not modelled:
  every property below that depends on lower-casing is stated for ASCII names only.
\<close>

definition ascii :: "string \<Rightarrow> bool" where
  "ascii s \<longleftrightarrow> list_all (\<lambda>c. \<not> digit7 c) s"

definition ascii_upper :: string where
  "ascii_upper = ''ABCDEFGHIJKLMNOPQRSTUVWXYZ''"

definition ascii_lower :: string where
  "ascii_lower = ''abcdefghijklmnopqrstuvwxyz''"

definition ascii_digits :: string where
  "ascii_digits = ''0123456789''"

definition lower_char :: "char \<Rightarrow> char" where
  "lower_char c = (case lookup (zip ascii_upper ascii_lower) c of Some l \<Rightarrow> l | None \<Rightarrow> c)"

definition upper_char :: "char \<Rightarrow> char" where
  "upper_char c = (case lookup (zip ascii_lower ascii_upper) c of Some u \<Rightarrow> u | None \<Rightarrow> c)"

definition lower :: "string \<Rightarrow> string" where
  "lower s = map lower_char s"

definition upper :: "string \<Rightarrow> string" where
  "upper s = map upper_char s"

text \<open>
  \<open>s.replace(old, new)\<close>: the occurrences of \<open>old\<close> are found scanning from the left
  and do not overlap; the scan goes on after the end of each occurrence, so the text put
  in is never scanned again. With an empty \<open>old\<close>, \<open>new\<close> is put before every character
  and at the end.
\<close>

function replace_from :: "string \<Rightarrow> string \<Rightarrow> string \<Rightarrow> string" where
  "replace_from old new [] = []"
| "replace_from old new (c # cs) =
     (if old \<noteq> [] \<and> prefix old (c # cs)
      then new @ replace_from old new (drop (length old) (c # cs))
      else c # replace_from old new cs)"
  by pat_completeness auto
termination
  by (relation "measure (\<lambda>(old, new, s). length s)") (auto simp: neq_Nil_conv)

definition str_replace :: "string \<Rightarrow> string \<Rightarrow> string \<Rightarrow> string" where
  "str_replace s old new =
     (if old = [] then new @ concat (map (\<lambda>c. c # new) s) else replace_from old new s)"

text \<open>\<open>int(s)\<close> on a string of ASCII digits, and \<open>xs.index(x)\<close>.\<close>

definition digit_val :: "char \<Rightarrow> int" where
  "digit_val c = (case lookup (zip ascii_digits [0, 1, 2, 3, 4, 5, 6, 7, 8, 9]) c of
                    Some d \<Rightarrow> d | None \<Rightarrow> 0)"

definition int_of_digits :: "string \<Rightarrow> int" where
  "int_of_digits s = foldl (\<lambda>n c. 10 * n + digit_val c) 0 s"

fun list_index :: "'a list \<Rightarrow> 'a \<Rightarrow> nat option" where
  "list_index [] x = None"
| "list_index (y # ys) x = (if y = x then Some 0 else map_option Suc (list_index ys x))"

section \<open>The file-name indexer of \<^verbatim>\<open>sanity_check_nwb.py\<close>\<close>

text \<open>
  \<open>file_matcher\<close> is the compiled pattern
  \<^verbatim>\<open>([a-zA-Z0-9-]+)_([0-9-]+)_(task|resting-state|sensory-stim)-day([0-9]+)\<close>.
  A pattern of this shape is a sequence of tokens: a literal text, a capturing group
  \<open>(class+)\<close> and a capturing group \<open>(w1|w2|...)\<close>. \<open>re_match\<close> is the backtracking
  matcher of \<open>re.match\<close> on such a sequence: it matches at the start of the string, a
  \<open>+\<close> takes the longest run first and gives characters back one at a time, the
  alternatives are tried in their order, and nothing is asked of the text after the
  match. The result is the list of the captured groups.
\<close>

datatype token = Lit string | Some_of "char \<Rightarrow> bool" | One_of "string list"

fun first_some :: "('a \<Rightarrow> 'b option) \<Rightarrow> 'a list \<Rightarrow> 'b option" where
  "first_some f [] = None"
| "first_some f (x # xs) = (case f x of Some y \<Rightarrow> Some y | None \<Rightarrow> first_some f xs)"

fun re_match :: "token list \<Rightarrow> string \<Rightarrow> string list option" where
  "re_match [] s = Some []"
| "re_match (Lit l # ts) s =
     (if prefix l s then re_match ts (drop (length l) s) else None)"
| "re_match (Some_of p # ts) s =
     first_some (\<lambda>k. map_option ((#) (take k s)) (re_match ts (drop k s)))
       (rev [1..<Suc (length (takeWhile p s))])"
| "re_match (One_of ws # ts) s =
     first_some (\<lambda>w. if prefix w s
                      then map_option ((#) w) (re_match ts (drop (length w) s))
                      else None) ws"

definition alnum_hyphen :: "char \<Rightarrow> bool" where
  "alnum_hyphen c \<longleftrightarrow> c \<in> set (ascii_lower @ ascii_upper @ ascii_digits @ ''-'')"

definition digit_hyphen :: "char \<Rightarrow> bool" where
  "digit_hyphen c \<longleftrightarrow> c \<in> set (ascii_digits @ ''-'')"

definition digit :: "char \<Rightarrow> bool" where
  "digit c \<longleftrightarrow> c \<in> set ascii_digits"

definition type_indexer :: "string list" where
  "type_indexer = [''task'', ''resting-state'', ''sensory-stim'']"

definition file_matcher :: "token list" where
  "file_matcher =
     [Some_of alnum_hyphen, Lit ''_'', Some_of digit_hyphen, Lit ''_'',
      One_of [''task'', ''resting-state'', ''sensory-stim''], Lit ''-day'', Some_of digit]"

text \<open>
  \<open>Path.stem\<close> of a path whose final component is \<open>name\<close>: the name without its last
  suffix, where a dot that starts or ends the name begins no suffix.
\<close>

definition rfind :: "string \<Rightarrow> char \<Rightarrow> int" where
  "rfind s c = (case filter (\<lambda>i. s ! i = c) (rev [0..<length s]) of
                  [] \<Rightarrow> - 1 | i # _ \<Rightarrow> int i)"

definition stem :: "string \<Rightarrow> string" where
  "stem name = (let i = rfind name CHR ''.'' in
                if 0 < i \<and> i < int (length name) - 1 then take (nat i) name else name)"

text \<open>
  \<open>nwb_file_indexer\<close>, on the final component of its path. \<open>matches.group(n)\<close> is the
  \<open>n\<close>-th captured group.
\<close>

definition nwb_file_indexer :: "string \<Rightarrow> error + (string \<times> string \<times> nat \<times> int)" where
  "nwb_file_indexer name =
     (case re_match file_matcher (stem name) of
        None \<Rightarrow> Inl (ValueError (''file does not match: '' @ stem name))
      | Some groups \<Rightarrow>
          (case list_index type_indexer (groups ! 2) of
             None \<Rightarrow> Inl (ValueError (groups ! 2 @ '' is not in list''))
           | Some rank \<Rightarrow> Inr (groups ! 0, groups ! 1, rank, int_of_digits (groups ! 3))))"

text \<open>
  The naming convention of the specification, on the name of a file:
  \<open><subject>_<date>_<task|resting-state|sensory-stim>-day<N>.<ext>\<close>, with a subject of
  letters, digits and hyphens, a date of digits and hyphens and a day number of digits.
\<close>

definition follows_convention :: "string \<Rightarrow> bool" where
  "follows_convention name \<longleftrightarrow>
     (\<exists>subject date kind day ext.
        name = subject @ ''_'' @ date @ ''_'' @ kind @ ''-day'' @ day @ ''.'' @ ext \<and>
        subject \<noteq> [] \<and> list_all alnum_hyphen subject \<and>
        date \<noteq> [] \<and> list_all digit_hyphen date \<and>
        kind \<in> set type_indexer \<and>
        day \<noteq> [] \<and> list_all digit day \<and>
        ext \<noteq> [])"

text \<open>
  What the pattern asks of a stem, in words: the stem begins with a subject, an
  underscore, a date, an underscore, one of the three session types, \<open>-day\<close> and a day
  number; any text may follow the day number.
\<close>

definition convention_prefix :: "string \<Rightarrow> bool" where
  "convention_prefix s \<longleftrightarrow>
     (\<exists>subject date kind day rest.
        s = subject @ ''_'' @ date @ ''_'' @ kind @ ''-day'' @ day @ rest \<and>
        subject \<noteq> [] \<and> list_all alnum_hyphen subject \<and>
        date \<noteq> [] \<and> list_all digit_hyphen date \<and>
        kind \<in> set type_indexer \<and>
        day \<noteq> [] \<and> list_all digit day)"

section \<open>Arrays and tables\<close>

text \<open>
  A floating-point cell is a real number or NaN (\<open>None\<close>): rounding and the infinities
  are left out of the model. An array has one of three element types. A column label of a
  table is a string, or the pair (keypoint, coordinate) of the tracking tables.
\<close>

type_synonym float = "real option"

datatype ndarray = Float64 "float list" | Int16 "16 word list" | Bool "bool list"

datatype label = Name string | Key string string

record dataframe =
  index_name :: "string option"
  cols :: "(label \<times> ndarray) list"

fun arr_len :: "ndarray \<Rightarrow> nat" where
  "arr_len (Float64 xs) = length xs"
| "arr_len (Int16 ws) = length ws"
| "arr_len (Bool bs) = length bs"

text \<open>
  \<open>pd.DataFrame(data=d)\<close> on a dict of one-dimensional arrays: the columns in the
  order of the dict, and a \<open>ValueError\<close> when the arrays differ in length.
\<close>

definition DataFrame :: "(label \<times> ndarray) list \<Rightarrow> error + dataframe" where
  "DataFrame d =
     (if length (remdups (map (\<lambda>(l, a). arr_len a) d)) \<le> 1
      then Inr \<lparr>index_name = None, cols = d\<rparr>
      else Inl (ValueError ''All arrays must be of the same length''))"

text \<open>\<open>a > 0\<close>, element by element: a comparison with NaN is false.\<close>

fun gt_zero :: "ndarray \<Rightarrow> ndarray" where
  "gt_zero (Float64 xs) = Bool (map (\<lambda>x. case x of None \<Rightarrow> False | Some r \<Rightarrow> 0 < r) xs)"
| "gt_zero (Int16 ws) = Bool (map (\<lambda>w. 0 < sint w) ws)"
| "gt_zero (Bool bs) = Bool bs"

text \<open>
  \<open>a.astype(np.int16)\<close>. A float inside the range of the type is truncated towards
  zero; on NaN and on a float outside the range the result of the cast depends on the
  platform, and is the parameter \<open>ovf\<close>.
\<close>

definition float_to_int16 :: "(float \<Rightarrow> 16 word) \<Rightarrow> float \<Rightarrow> 16 word" where
  "float_to_int16 ovf x =
     (case x of
        None \<Rightarrow> ovf x
      | Some r \<Rightarrow>
          if - 32769 < r \<and> r < 32768
          then word_of_int (if 0 \<le> r then \<lfloor>r\<rfloor> else \<lceil>r\<rceil>)
          else ovf x)"

fun astype_int16 :: "(float \<Rightarrow> 16 word) \<Rightarrow> ndarray \<Rightarrow> ndarray" where
  "astype_int16 ovf (Float64 xs) = Int16 (map (float_to_int16 ovf) xs)"
| "astype_int16 ovf (Int16 ws) = Int16 ws"
| "astype_int16 ovf (Bool bs) = Int16 (map (\<lambda>b. if b then 1 else 0) bs)"

section \<open>The container\<close>

text \<open>
  What the extraction routines read of an \<open>NWBFile\<close>. A processing module is the dict of
  its data interfaces; an interface is one of the kinds the routines ask for, and a
  method or attribute asked of another kind is an \<open>AttributeError\<close>.
\<close>

record date =
  year :: nat
  month :: nat
  mday :: nat

record subject =
  subject_id :: "string option"
  date_of_birth :: "date option"
  age :: "string option"
  sex :: "string option"

record acquired =
  acq_data :: ndarray
  timestamps :: ndarray

record pose_series =
  xy :: "(float \<times> float) list"
  confidence :: "float list"

record roi_response_series =
  traces :: "float list list"
  rois_table :: "(string \<times> string list) list"

datatype interface =
    TimeSeries ndarray
  | PoseEstimation "(string \<times> pose_series) list"
  | PupilTracking "(string \<times> ndarray) list"
  | EyeTracking "(string \<times> ndarray) list"
  | DfOverF "(string \<times> roi_response_series) list"
  | DynamicTable dataframe

type_synonym processing_module = "(string \<times> interface) list"

record nwbfile =
  session_id :: "string option"
  session_description :: string
  file_notes :: "string option"
  subject :: "subject option"
  acquisition :: "(string \<times> acquired) list"
  processing :: "(string \<times> processing_module) list"
  trials :: "dataframe option"
  intervals :: "(string \<times> dataframe) list"

text \<open>
  \<open>traces\<close> holds the two-dimensional array of a response series by column (one list per
  region of interest); \<open>xy\<close> holds the rows of the two coordinate columns of a pose series.
  The getters of a container raise \<open>KeyError\<close> on a name that is absent.
\<close>

definition get_acquisition :: "nwbfile \<Rightarrow> string \<Rightarrow> error + acquired" where
  "get_acquisition f n = getitem (acquisition f) n"

definition get_processing_module :: "nwbfile \<Rightarrow> string \<Rightarrow> error + processing_module" where
  "get_processing_module f n = getitem (processing f) n"

definition get_data_interface :: "processing_module \<Rightarrow> string \<Rightarrow> error + interface" where
  "get_data_interface m n = getitem m n"

definition get_time_intervals :: "nwbfile \<Rightarrow> string \<Rightarrow> error + dataframe" where
  "get_time_intervals f n = getitem (intervals f) n"

fun data_of :: "interface \<Rightarrow> error + ndarray" where
  "data_of (TimeSeries a) = Inr a"
| "data_of _ = Inl (AttributeError ''data'')"

fun pose_estimation_series :: "interface \<Rightarrow> error + (string \<times> pose_series) list" where
  "pose_estimation_series (PoseEstimation ps) = Inr ps"
| "pose_estimation_series _ = Inl (AttributeError ''pose_estimation_series'')"

fun get_timeseries :: "interface \<Rightarrow> string \<Rightarrow> error + ndarray" where
  "get_timeseries (PupilTracking ts) n = getitem ts n"
| "get_timeseries _ n = Inl (AttributeError ''get_timeseries'')"

fun get_spatial_series :: "interface \<Rightarrow> string \<Rightarrow> error + ndarray" where
  "get_spatial_series (EyeTracking ss) n = getitem ss n"
| "get_spatial_series _ n = Inl (AttributeError ''get_spatial_series'')"

fun get_roi_response_series :: "interface \<Rightarrow> string \<Rightarrow> error + roi_response_series" where
  "get_roi_response_series (DfOverF rs) n = getitem rs n"
| "get_roi_response_series _ n = Inl (AttributeError ''get_roi_response_series'')"

fun to_dataframe :: "interface \<Rightarrow> error + dataframe" where
  "to_dataframe (DynamicTable t) = Inr t"
| "to_dataframe _ = Inl (AttributeError ''to_dataframe'')"

section \<open>The extraction routines of \<^verbatim>\<open>bdbc_nwb_tools.py\<close>\<close>

subsection \<open>The records\<close>

record metadata =
  md_session_id :: "string option"
  md_session_description :: string
  md_session_notes :: "string option"
  md_subject_id :: "string option"
  md_subject_DoB :: string
  md_subject_age :: "string option"
  md_subject_sex :: "string option"

datatype timebase = Imaging ndarray | Timebases ndarray ndarray "ndarray option"

text \<open>
  The value of a field of a session record: the metadata, the timebase, a table or
  \<open>None\<close>, or the dict of the descriptions of the regions of interest.
\<close>

datatype pyval =
    MetadataV metadata
  | TimebaseV timebase
  | TableV "dataframe option"
  | RoiDescV "(string \<times> string) list"

text \<open>
  The three named tuples. Calling the class with \<open>**data\<close> raises \<open>TypeError\<close> when
  \<open>data\<close> has a key that is no field of the class, and when a field has no key.
\<close>

datatype shape = NWBData | NWBData_resting | NWBData_sensory

fun fields_of :: "shape \<Rightarrow> string list" where
  "fields_of NWBData =
     [''metadata'', ''timebase'', ''trials'', ''daq'', ''body_video_tracking'',
      ''face_video_tracking'', ''eye_video_tracking'', ''pupil_tracking'', ''rois'',
      ''roi_description'']"
| "fields_of NWBData_resting =
     [''metadata'', ''timebase'', ''daq'', ''body_video_tracking'',
      ''face_video_tracking'', ''eye_video_tracking'', ''pupil_tracking'', ''rois'',
      ''roi_description'']"
| "fields_of NWBData_sensory =
     [''metadata'', ''timebase'', ''trials'', ''rois'', ''roi_description'']"

record session =
  shape :: shape
  field_values :: "pyval list"

definition construct :: "shape \<Rightarrow> (string \<times> pyval) list \<Rightarrow> error + session" where
  "construct sh data =
     (let unexpected = filter (\<lambda>k. k \<notin> set (fields_of sh)) (map fst data);
          missing = filter (\<lambda>n. lookup data n = None) (fields_of sh)
      in if unexpected \<noteq> [] then Inl (TypeError ''got an unexpected keyword argument'' unexpected)
         else if missing \<noteq> [] then Inl (TypeError ''missing required positional arguments'' missing)
         else Inr \<lparr>shape = sh,
                   field_values = concat (map (\<lambda>n. case lookup data n of
                                                      None \<Rightarrow> [] | Some v \<Rightarrow> [v]) (fields_of sh))\<rparr>)"

text \<open>
  \<open>getattr(session, name)\<close> for the name of a field. Any other name is modelled as an
  \<open>AttributeError\<close>.
\<close>

definition getattr :: "session \<Rightarrow> string \<Rightarrow> error + pyval" where
  "getattr s name =
     (case lookup (zip (fields_of (shape s)) (field_values s)) name of
        None \<Rightarrow> Inl (AttributeError name)
      | Some v \<Rightarrow> Inr v)"

subsection \<open>read\_metadata and read\_timebases\<close>

definition digit_char :: "nat \<Rightarrow> char" where
  "digit_char d = ascii_digits ! (d mod 10)"

fun zero_padded :: "nat \<Rightarrow> nat \<Rightarrow> string" where
  "zero_padded 0 n = []"
| "zero_padded (Suc k) n = zero_padded k (n div 10) @ [digit_char n]"

text \<open>\<open>strftime('%Y-%m-%d')\<close>, for the years of four digits.\<close>

definition strftime_ymd :: "date \<Rightarrow> string" where
  "strftime_ymd d =
     zero_padded 4 (year d) @ ''-'' @ zero_padded 2 (month d) @ ''-'' @ zero_padded 2 (mday d)"

definition read_metadata :: "nwbfile \<Rightarrow> error + metadata" where
  "read_metadata f =
     (case subject f of
        None \<Rightarrow> Inl (AttributeError ''subject_id'')
      | Some sub \<Rightarrow>
          (case date_of_birth sub of
             None \<Rightarrow> Inl (AttributeError ''strftime'')
           | Some dob \<Rightarrow>
               Inr \<lparr>md_session_id = session_id f,
                    md_session_description = session_description f,
                    md_session_notes = file_notes f,
                    md_subject_id = subject_id sub,
                    md_subject_DoB = strftime_ymd dob,
                    md_subject_age = age sub,
                    md_subject_sex = sex sub\<rparr>))"

definition read_timebases :: "nwbfile \<Rightarrow> bool \<Rightarrow> error + timebase" where
  "read_timebases f downsampled =
     bind (get_acquisition f ''widefield_blue'') (\<lambda>blue.
       if downsampled then Inr (Imaging (timestamps blue))
       else bind (get_acquisition f ''Humidity_raw'') (\<lambda>humidity.
              Inr (Timebases (timestamps humidity) (timestamps blue)
                     (case lookup (acquisition f) ''body_video'' of
                        None \<Rightarrow> None
                      | Some video \<Rightarrow> Some (timestamps video)))))"

subsection \<open>read\_roi\_dFF and read\_trials\<close>

text \<open>
  \<open>table.get(name)\<close> is \<open>None\<close> for a column the table does not have, and iterating
  over \<open>np.array(None)\<close> raises \<open>TypeError\<close>.
\<close>

definition table_column :: "(string \<times> string list) list \<Rightarrow> string \<Rightarrow> error + string list" where
  "table_column t n =
     (case lookup t n of
        None \<Rightarrow> Inl (TypeError ''iteration over a 0-d array'' [n])
      | Some xs \<Rightarrow> Inr xs)"

definition dict_of :: "('k \<times> 'v) list \<Rightarrow> ('k \<times> 'v) list" where
  "dict_of kvs = foldl (\<lambda>d (k, v). dict_set d k v) [] kvs"

definition read_roi_dFF :: "nwbfile \<Rightarrow> error + (dataframe \<times> (string \<times> string) list)" where
  "read_roi_dFF f =
     bind (get_processing_module f ''ophys'') (\<lambda>ophys.
     bind (get_data_interface ophys ''DfOverF'') (\<lambda>dfof.
     bind (get_roi_response_series dfof ''dFF'') (\<lambda>dff_entry.
     bind (table_column (rois_table dff_entry) ''roi_name'') (\<lambda>names.
     bind (table_column (rois_table dff_entry) ''roi_description'') (\<lambda>descs.
       if length (traces dff_entry) \<noteq> length names
       then Inl (ValueError ''Shape of passed values does not match the columns'')
       else Inr (\<lparr>index_name = None,
                   cols = zip (map Name names) (map Float64 (traces dff_entry))\<rparr>,
                 dict_of (zip names descs)))))))"

definition read_trials :: "nwbfile \<Rightarrow> bool \<Rightarrow> error + dataframe option" where
  "read_trials f downsampled =
     (case trials f of
        None \<Rightarrow> Inr None
      | Some _ \<Rightarrow>
          bind (if downsampled
                then bind (get_processing_module f ''downsampled'') (\<lambda>m.
                     bind (get_data_interface m ''trials'') to_dataframe)
                else get_time_intervals f ''trials'')
            (\<lambda>t. Inr (Some (t\<lparr>index_name := None\<rparr>))))"

subsection \<open>read\_acquisition\<close>

fun contains :: "string \<Rightarrow> string \<Rightarrow> bool" where
  "contains sub [] = (sub = [])"
| "contains sub (c # cs) = (prefix sub (c # cs) \<or> contains sub cs)"

definition skipped :: "string \<Rightarrow> bool" where
  "skipped name \<longleftrightarrow>
     contains ''video_keypoints'' name \<or>
     name \<in> set [''eye_position'', ''pupil_tracking'', ''trials'']"

definition column_name :: "string \<Rightarrow> string" where
  "column_name name =
     str_replace (str_replace (str_replace (str_replace (lower name)
       '' '' ''_'') ''.'' '''') ''-'' ''_'') ''_ds'' ''''"

fun collect :: "processing_module \<Rightarrow> string list \<Rightarrow> (string \<times> ndarray) list
                \<Rightarrow> error + (string \<times> ndarray) list" where
  "collect parent [] data = Inr data"
| "collect parent (name # names) data =
     (if skipped name then collect parent names data
      else bind (bind (get_data_interface parent name) data_of) (\<lambda>a.
             collect parent names (dict_set data (column_name name) a)))"

fun convert :: "(ndarray \<Rightarrow> ndarray) \<Rightarrow> string list \<Rightarrow> (string \<times> ndarray) list
                \<Rightarrow> error + (string \<times> ndarray) list" where
  "convert f [] data = Inr data"
| "convert f (column # columns) data =
     bind (getitem data column) (\<lambda>a. convert f columns (dict_set data column (f a)))"

text \<open>
  With \<open>downsampled\<close> false the parent is \<open>nwbfile.acquisition\<close>, a dict of the
  acquisition entries, which has no attribute \<open>data_interfaces\<close>.
\<close>

definition read_acquisition ::
  "(float \<Rightarrow> 16 word) \<Rightarrow> nwbfile \<Rightarrow> bool \<Rightarrow> bool \<Rightarrow> error + dataframe" where
  "read_acquisition ovf f downsampled isSensory =
     bind (if downsampled then get_processing_module f ''downsampled''
           else Inl (AttributeError ''data_interfaces'')) (\<lambda>parent.
     bind (collect parent (map fst parent) []) (\<lambda>data.
     bind (if \<not> isSensory
           then bind (convert gt_zero [''reward'', ''state_lever'', ''tone''] data)
                  (convert (astype_int16 ovf) [''state_task''])
           else Inr data) (\<lambda>data.
       DataFrame (map (\<lambda>(column, a). (Name column, a)) data))))"

subsection \<open>read\_video\_tracking\<close>

definition keypoint_columns ::
  "bool \<Rightarrow> (label \<times> ndarray) list \<Rightarrow> string \<times> pose_series \<Rightarrow> (label \<times> ndarray) list" where
  "keypoint_columns downsampled data entry =
     (case entry of (kpt, series) \<Rightarrow>
        (let data = dict_set data (Key kpt ''x'') (Float64 (map fst (xy series)));
             data = dict_set data (Key kpt ''y'') (Float64 (map snd (xy series)))
         in if \<not> downsampled
            then dict_set data (Key kpt ''likelihood'') (Float64 (confidence series))
            else data))"

definition read_video_tracking :: "nwbfile \<Rightarrow> string \<Rightarrow> bool \<Rightarrow> error + dataframe option" where
  "read_video_tracking f view downsampled =
     (if view \<in> set [''body'', ''face'', ''eye''] then
        bind (get_processing_module f (if downsampled then ''downsampled'' else ''behavior''))
          (\<lambda>parent.
            if lookup parent (view @ ''_video_keypoints'') = None then Inr None
            else bind (get_data_interface parent (view @ ''_video_keypoints'')) (\<lambda>entries.
                 bind (pose_estimation_series entries) (\<lambda>series.
                 bind (DataFrame (foldl (keypoint_columns downsampled) [] series)) (\<lambda>df.
                   Inr (Some df)))))
      else if view = ''pupil'' then
        bind (get_processing_module f (if downsampled then ''downsampled'' else ''behavior''))
          (\<lambda>parent.
            if lookup parent ''pupil_tracking'' = None then Inr None
            else bind (bind (get_data_interface parent ''pupil_tracking'')
                         (\<lambda>i. get_timeseries i ''diameter'')) (\<lambda>diameter.
                 bind (bind (get_data_interface parent ''eye_position'')
                         (\<lambda>i. get_spatial_series i ''center_x'')) (\<lambda>center_x.
                 bind (bind (get_data_interface parent ''eye_position'')
                         (\<lambda>i. get_spatial_series i ''center_y'')) (\<lambda>center_y.
                 bind (DataFrame [(Name ''diameter'', diameter),
                                  (Name ''center_x'', center_x),
                                  (Name ''center_y'', center_y)]) (\<lambda>df.
                   Inr (Some df))))))
      else Inl (ValueError (''expected body, face, eye or pupil, but got '' @ view)))"

subsection \<open>load\_from\_file\<close>

text \<open>
  The file system maps a path to the container stored there. The \<open>with\<close> statement opens
  the container, runs its body on what \<open>src.read()\<close> gives and closes the container,
  whether the body returns or raises; the events record the opening and the closing.
\<close>

datatype event = Opened string | Closed string

definition with_NWBHDF5IO ::
  "(string \<times> nwbfile) list \<Rightarrow> string \<Rightarrow> (nwbfile \<Rightarrow> error + 'a) \<Rightarrow> (error + 'a) \<times> event list" where
  "with_NWBHDF5IO fs path body =
     (case lookup fs path of
        None \<Rightarrow> (Inl (FileNotFoundError path), [])
      | Some nwb \<Rightarrow> (body nwb, [Opened path, Closed path]))"

fun track_views :: "nwbfile \<Rightarrow> bool \<Rightarrow> string list \<Rightarrow> (string \<times> pyval) list
                    \<Rightarrow> error + (string \<times> pyval) list" where
  "track_views f downsampled [] data = Inr data"
| "track_views f downsampled (view # views) data =
     bind (read_video_tracking f view downsampled) (\<lambda>t.
       track_views f downsampled views (dict_set data (view @ ''_video_tracking'') (TableV t)))"

definition read_all ::
  "(float \<Rightarrow> 16 word) \<Rightarrow> bool \<Rightarrow> bool \<Rightarrow> bool \<Rightarrow> nwbfile \<Rightarrow> error + (string \<times> pyval) list" where
  "read_all ovf downsampled isResting isSensory f =
     bind (read_metadata f) (\<lambda>md.
     bind (read_timebases f downsampled) (\<lambda>tb.
     bind (if \<not> isResting
           then bind (read_trials f downsampled) (\<lambda>t.
                  Inr (dict_set (dict_set (dict_set [] ''metadata'' (MetadataV md))
                         ''timebase'' (TimebaseV tb)) ''trials'' (TableV t)))
           else Inr (dict_set (dict_set [] ''metadata'' (MetadataV md))
                         ''timebase'' (TimebaseV tb))) (\<lambda>data.
     bind (if \<not> isSensory
           then bind (read_acquisition ovf f downsampled False) (\<lambda>daq.
                bind (track_views f downsampled [''body'', ''face'', ''eye'']
                        (dict_set data ''daq'' (TableV (Some daq)))) (\<lambda>data.
                bind (read_video_tracking f ''pupil'' downsampled) (\<lambda>pupil.
                  Inr (dict_set data ''pupil_tracking'' (TableV pupil)))))
           else Inr data) (\<lambda>data.
     bind (read_roi_dFF f) (\<lambda>(rois, descs).
       Inr (dict_set (dict_set data ''rois'' (TableV (Some rois)))
              ''roi_description'' (RoiDescV descs)))))))"

definition load_from_file ::
  "(float \<Rightarrow> 16 word) \<Rightarrow> (string \<times> nwbfile) list \<Rightarrow> string \<Rightarrow> bool \<Rightarrow> bool \<Rightarrow> bool
   \<Rightarrow> (error + session) \<times> event list" where
  "load_from_file ovf fs nwbfilepath downsampled isResting isSensory =
     (case with_NWBHDF5IO fs nwbfilepath (read_all ovf downsampled isResting isSensory) of
        (data, events) \<Rightarrow>
          (bind data (\<lambda>data.
             if isResting then construct NWBData_resting data
             else if isSensory then construct NWBData_sensory data
             else construct NWBData data),
           events))"

section \<open>The reports of \<^verbatim>\<open>sanity_check_nwb.py\<close>\<close>

subsection \<open>stat\_summary\<close>

text \<open>
  A summary is a table of floats: the names of its columns, and one row of cells per
  label of its index.
\<close>

record summary =
  columns :: "string list"
  rows :: "(label \<times> float list) list"

fun is_numeric :: "ndarray \<Rightarrow> bool" where
  "is_numeric (Float64 xs) = True"
| "is_numeric (Int16 ws) = True"
| "is_numeric (Bool bs) = False"

fun cells :: "ndarray \<Rightarrow> float list" where
  "cells (Float64 xs) = xs"
| "cells (Int16 ws) = map (\<lambda>w. Some (real_of_int (sint w))) ws"
| "cells (Bool bs) = map (\<lambda>b. Some (if b then 1 else 0)) bs"

definition present :: "float list \<Rightarrow> real list" where
  "present xs = concat (map (\<lambda>x. case x of None \<Rightarrow> [] | Some r \<Rightarrow> [r]) xs)"

definition isna_count :: "float list \<Rightarrow> nat" where
  "isna_count xs = length (filter (\<lambda>x. x = None) xs)"

text \<open>
  The statistics of \<open>describe\<close> on the values of a column that are not missing: the
  mean, the sample standard deviation (NaN on fewer than two values), the minimum and the
  maximum; each is NaN when no value is left.
\<close>

definition mean :: "real list \<Rightarrow> float" where
  "mean vs = (if vs = [] then None else Some (sum_list vs / real (length vs)))"

definition std :: "real list \<Rightarrow> float" where
  "std vs =
     (if length vs < 2 then None
      else Some (sqrt (sum_list (map (\<lambda>v. (v - sum_list vs / real (length vs))\<^sup>2) vs)
                       / real (length vs - 1))))"

definition minimum :: "real list \<Rightarrow> float" where
  "minimum vs = (if vs = [] then None else Some (Min (set vs)))"

definition maximum :: "real list \<Rightarrow> float" where
  "maximum vs = (if vs = [] then None else Some (Max (set vs)))"

text \<open>
  \<open>tab.describe().T[['mean', 'std', 'min', 'max']]\<close>. \<open>describe\<close> raises \<open>ValueError\<close>
  on a table without columns. When the table has a numeric column it describes the
  numeric columns only, so a boolean column gets no row; the count and the percentiles it
  also computes are dropped by the selection. When no column is numeric it describes
  every column by count, unique, top and freq, and the selection raises \<open>KeyError\<close>.
\<close>

definition describe_selected :: "dataframe \<Rightarrow> error + summary" where
  "describe_selected tab =
     (if cols tab = [] then Inl (ValueError ''Cannot describe a DataFrame without columns'')
      else if filter (\<lambda>(l, a). is_numeric a) (cols tab) = []
      then Inl (KeyError ''mean, std, min, max'')
      else Inr \<lparr>columns = [''mean'', ''std'', ''min'', ''max''],
                rows = map (\<lambda>(l, a). (l, [mean (present (cells a)), std (present (cells a)),
                                            minimum (present (cells a)),
                                            maximum (present (cells a))]))
                         (filter (\<lambda>(l, a). is_numeric a) (cols tab))\<rparr>)"

text \<open>
  \<open>tab.isna().sum()\<close> counts the missing values of every column, and the assignment
  \<open>summary['nan_count'] = ...\<close> adds the column, each row taking the count of its own
  label.
\<close>

definition isna_sum :: "dataframe \<Rightarrow> (label \<times> nat) list" where
  "isna_sum tab = map (\<lambda>(l, a). (l, isna_count (cells a))) (cols tab)"

definition assign_column :: "summary \<Rightarrow> string \<Rightarrow> (label \<times> nat) list \<Rightarrow> summary" where
  "assign_column sm name counts =
     \<lparr>columns = columns sm @ [name],
      rows = map (\<lambda>(l, vs). (l, vs @ [case lookup counts l of
                                          None \<Rightarrow> None
                                        | Some k \<Rightarrow> Some (real k)])) (rows sm)\<rparr>"

text \<open>What \<open>print\<close> writes: a line of text, or a summary table.\<close>

datatype out = Line string | Frame summary

definition str_of :: "string option \<Rightarrow> string" where
  "str_of p = (case p of None \<Rightarrow> ''None'' | Some s \<Rightarrow> s)"

definition stat_summary ::
  "session \<Rightarrow> string \<Rightarrow> string option \<Rightarrow> bool \<Rightarrow> error + (summary option \<times> out list)" where
  "stat_summary s df_name nwb_path verbose =
     bind (getattr s df_name) (\<lambda>tab.
       case tab of
         TableV None \<Rightarrow>
           Inr (None,
                if verbose
                then [Line (''***no '' @ df_name @ '' found in '' @ str_of nwb_path), Line '''']
                else [])
       | TableV (Some t) \<Rightarrow>
           bind (describe_selected t) (\<lambda>sm.
             Inr (Some (assign_column sm ''nan_count'' (isna_sum t)),
                  if verbose
                  then [Line (df_name @ '' summary for '' @ str_of nwb_path),
                        Frame (assign_column sm ''nan_count'' (isna_sum t)), Line '''']
                  else []))
       | _ \<Rightarrow> Inl (AttributeError ''describe''))"

subsection \<open>sanity\_check\_nwb\<close>

text \<open>
  What \<open>f.write\<close> writes to the output file: a text, or a summary rendered by
  \<open>to_string\<close>. A run of \<open>sanity_check_nwb\<close> is what it raised (\<open>None\<close> when it returned),
  the output file it opened with what it wrote there, what it printed, and the events of
  the container.
\<close>

datatype chunk = Text string | Rendered summary

record run =
  raised :: "error option"
  written :: "(string \<times> chunk list) list"
  printed :: "out list"
  events :: "event list"

fun write_blocks :: "session \<Rightarrow> string \<Rightarrow> string list \<Rightarrow> chunk list \<Rightarrow> out list
                     \<Rightarrow> error option \<times> chunk list \<times> out list" where
  "write_blocks s nwb_path [] file console = (None, file, console)"
| "write_blocks s nwb_path (df_name # df_names) file console =
     (case stat_summary s df_name (Some nwb_path) True of
        Inl e \<Rightarrow> (Some e, file, console)
      | Inr (summary, lines) \<Rightarrow>
          (case summary of
             None \<Rightarrow>
               (Some (AttributeError ''to_string''),
                file @ [Text (''\<newline>\<newline>\<newline>'' @ upper df_name @ '' summary\<newline>'')],
                console @ lines)
           | Some sm \<Rightarrow>
               write_blocks s nwb_path df_names
                 (file @ [Text (''\<newline>\<newline>\<newline>'' @ upper df_name @ '' summary\<newline>''),
                          Rendered sm])
                 (console @ lines)))"

definition df_name_list :: "bool \<Rightarrow> string list" where
  "df_name_list isSensory =
     (if isSensory then [''rois'']
      else [''rois'', ''daq'', ''body_video_tracking'', ''face_video_tracking'',
            ''eye_video_tracking'', ''pupil_tracking''])"

definition sanity_check_nwb ::
  "(float \<Rightarrow> 16 word) \<Rightarrow> (string \<times> nwbfile) list \<Rightarrow> string \<Rightarrow> string option \<Rightarrow> bool \<Rightarrow> bool
   \<Rightarrow> run" where
  "sanity_check_nwb ovf fs nwb_path output_txt_path isResting isSensory =
     (if lookup fs nwb_path = None
      then \<lparr>raised = Some (AssertionError (''File not found: '' @ nwb_path)),
            written = [], printed = [], events = []\<rparr>
      else
        (case load_from_file ovf fs nwb_path True isResting isSensory of
           (Inl e, io) \<Rightarrow> \<lparr>raised = Some e, written = [], printed = [], events = io\<rparr>
         | (Inr s, io) \<Rightarrow>
             (case write_blocks s nwb_path (df_name_list isSensory) [] [] of
                (r, file, console) \<Rightarrow>
                  \<lparr>raised = r,
                   written = [(case output_txt_path of
                                 None \<Rightarrow> str_replace nwb_path ''.nwb'' ''_summary.txt''
                               | Some p \<Rightarrow> p, file)],
                   printed = console, events = io\<rparr>)))"

subsection \<open>plot\_stats\_across\_sessions\<close>

text \<open>
  The model keeps what the function plots and leaves the figures out: a panel is the row
  name of its y label, its statistic, and its lines, each the x positions and the y
  values of its points. A line plotted without x positions gets the positions
  \<open>0, 1, 2, ...\<close>. The legend of a page lists every file of \<open>nwb_files\<close> after its index
  in that list.
\<close>

record panel =
  row_name :: label
  stat :: string
  lines :: "(nat list \<times> float list) list"

fun traverse :: "('a \<Rightarrow> error + 'b) \<Rightarrow> 'a list \<Rightarrow> error + 'b list" where
  "traverse f [] = Inr []"
| "traverse f (x # xs) = bind (f x) (\<lambda>y. bind (traverse f xs) (\<lambda>ys. Inr (y # ys)))"

fun gather :: "session list \<Rightarrow> string \<Rightarrow> nat list \<Rightarrow> summary option list
               \<Rightarrow> error + summary option list" where
  "gather sessions df_name [] summarys = Inr summarys"
| "gather sessions df_name (i # is) summarys =
     (if i < length sessions
      then bind (stat_summary (sessions ! i) df_name None False) (\<lambda>(summary, lines).
             gather sessions df_name is
               (if summary \<noteq> None then summarys @ [summary] else summarys))
      else Inl (IndexError ''list index out of range''))"

definition index_of_first :: "summary option list \<Rightarrow> label list option" where
  "index_of_first summarys =
     (case summarys of
        Some sm # _ \<Rightarrow> Some (map fst (rows sm))
      | _ \<Rightarrow> None)"

text \<open>
  A row of a summary is a series labelled by the columns. \<open>pd.concat\<close> puts the series
  one after the other; \<open>result[stat]\<close> is the array of the entries labelled \<open>stat\<close> when
  there are several, and the single number when there is one, which has no \<open>values\<close>.
\<close>

definition iloc :: "summary \<Rightarrow> nat \<Rightarrow> error + (string \<times> float) list" where
  "iloc sm i =
     (if i < length (rows sm) then Inr (zip (columns sm) (snd (rows sm ! i)))
      else Inl (IndexError ''single positional indexer is out-of-bounds''))"

definition loc :: "summary \<Rightarrow> label \<Rightarrow> error + (string \<times> float) list" where
  "loc sm l =
     (case lookup (rows sm) l of
        None \<Rightarrow> Inl (KeyError ''row label'')
      | Some vs \<Rightarrow> Inr (zip (columns sm) vs))"

definition series_values :: "(string \<times> float) list \<Rightarrow> string \<Rightarrow> error + float list" where
  "series_values result name =
     (case map snd (filter (\<lambda>(k, v). k = name) result) of
        [] \<Rightarrow> Inl (KeyError name)
      | [v] \<Rightarrow> Inl (AttributeError ''values'')
      | vs \<Rightarrow> Inr vs)"

definition pd_concat :: "(string \<times> float) list list \<Rightarrow> error + (string \<times> float) list" where
  "pd_concat series =
     (if series = [] then Inl (ValueError ''No objects to concatenate'')
      else Inr (concat series))"

definition stats :: "string list" where
  "stats = [''mean'', ''max'', ''min'', ''std'', ''nan_count'']"

text \<open>
  The inner loop of the branch for the fields other than \<open>rois\<close>, over
  \<open>enumerate(summarys, start=1)\<close>: the rows selected and the list \<open>rowidxx\<close>.
\<close>

fun select_rows :: "nat \<Rightarrow> (nat \<times> summary option) list
                    \<Rightarrow> error + ((string \<times> float) list list \<times> nat list)" where
  "select_rows i [] = Inr ([], [])"
| "select_rows i ((rowidx, df) # rest) =
     (case df of
        None \<Rightarrow> select_rows i rest
      | Some sm \<Rightarrow>
          bind (iloc sm i) (\<lambda>row.
          bind (select_rows i rest) (\<lambda>(selected_row, rowidxx).
            Inr (row # selected_row, rowidx # rowidxx))))"

text \<open>
  The name of a row of the \<open>rois\<close> branch: \<open>rows[i][:-2]\<close> followed by the suffix of the
  side. A label that is a pair loses both its parts to the slice.
\<close>

fun side_label :: "label \<Rightarrow> string \<Rightarrow> label" where
  "side_label (Name s) side = Name (take (length s - 2) s @ side)"
| "side_label (Key k c) side = Name (''()'' @ side)"

fun loc_all :: "summary option list \<Rightarrow> label \<Rightarrow> error + (string \<times> float) list list" where
  "loc_all [] l = Inr []"
| "loc_all (df # rest) l =
     (case df of
        None \<Rightarrow> Inl (AttributeError ''loc'')
      | Some sm \<Rightarrow> bind (loc sm l) (\<lambda>row. bind (loc_all rest l) (\<lambda>others. Inr (row # others))))"

definition plot_row ::
  "string \<Rightarrow> summary option list \<Rightarrow> label list \<Rightarrow> nat \<Rightarrow> error + panel list" where
  "plot_row df_name summarys index i =
     (if df_name = ''rois'' then
        bind (bind (loc_all summarys (side_label (index ! i) ''_l'')) pd_concat) (\<lambda>result_l.
        bind (bind (loc_all summarys (side_label (index ! i) ''_r'')) pd_concat) (\<lambda>result_r.
          traverse (\<lambda>st.
            bind (series_values result_l st) (\<lambda>left.
            bind (series_values result_r st) (\<lambda>right.
              Inr \<lparr>row_name = side_label (index ! i) '''', stat = st,
                   lines = [([0..<length left], left), ([0..<length right], right)]\<rparr>)))
            stats))
      else
        bind (select_rows i (enumerate 1 summarys)) (\<lambda>(selected_row, rowidxx).
        bind (pd_concat selected_row) (\<lambda>result.
          traverse (\<lambda>st.
            bind (series_values result st) (\<lambda>ys.
              Inr \<lparr>row_name = index ! i, stat = st, lines = [(rowidxx, ys)]\<rparr>))
            stats)))"

definition plot_stats_across_sessions ::
  "string list \<Rightarrow> session list \<Rightarrow> string \<Rightarrow> error + panel list" where
  "plot_stats_across_sessions nwb_files sessions df_name =
     bind (gather sessions df_name [0..<length nwb_files] []) (\<lambda>summarys.
       case index_of_first summarys of
         None \<Rightarrow> Inl (TypeError ''object of type NoneType has no len()'' [])
       | Some index \<Rightarrow>
           bind (traverse (plot_row df_name summarys index)
                   [0..<(if df_name = ''rois'' then length index div 2 else length index)])
             (\<lambda>panels. Inr (concat panels)))"

definition legend :: "string list \<Rightarrow> (nat \<times> string) list" where
  "legend nwb_files = enumerate 0 nwb_files"

section \<open>The statements of the specification\<close>

subsection \<open>Column identifiers\<close>

text \<open>
  The identifier as the specification words it: the name in lower case, with its spaces,
  periods and hyphens removed and a suffix \<open>_ds\<close> removed.
\<close>

definition claimed_column :: "string \<Rightarrow> string" where
  "claimed_column name =
     (let s = filter (\<lambda>c. c \<notin> set '' .-'') (lower name)
      in if suffix ''_ds'' s then take (length s - 3) s else s)"

text \<open>
  The identifier in the words of the code: every space and every hyphen becomes an
  underscore, every period is deleted and every other character is put in lower case;
  then the text is read from the left and every \<open>_ds\<close> met is deleted, the reading going
  on after it.
\<close>

fun drop_ds :: "string \<Rightarrow> string" where
  "drop_ds (c1 # c2 # c3 # cs) =
     (if c1 = CHR ''_'' \<and> c2 = CHR ''d'' \<and> c3 = CHR ''s'' then drop_ds cs
      else c1 # drop_ds (c2 # c3 # cs))"
| "drop_ds cs = cs"

definition underscored :: "char \<Rightarrow> string" where
  "underscored c =
     (if c = CHR '' '' \<or> c = CHR ''-'' then ''_''
      else if c = CHR ''.'' then []
      else [lower_char c])"

definition amended_column :: "string \<Rightarrow> string" where
  "amended_column name = drop_ds (concat (map underscored name))"

subsection \<open>What a pattern accepts\<close>

text \<open>
  The word a token accepts, and the groups captured when the tokens of a pattern accept
  the words of a list one by one.
\<close>

fun tok_ok :: "token \<Rightarrow> string \<Rightarrow> bool" where
  "tok_ok (Lit l) w = (w = l)"
| "tok_ok (Some_of p) w = (w \<noteq> [] \<and> list_all p w)"
| "tok_ok (One_of ws) w = (w \<in> set ws)"

fun captured :: "token list \<Rightarrow> string list \<Rightarrow> string list" where
  "captured (Lit l # ts) (w # ws) = captured ts ws"
| "captured (t # ts) (w # ws) = w # captured ts ws"
| "captured _ _ = []"

subsection \<open>Views and fields\<close>

text \<open>
  The views that \<open>read_video_tracking\<close> knows, and the fields of the resting shape that
  \<open>load_from_file\<close> does not read for a sensory session.
\<close>

definition views :: "string list" where
  "views = [''body'', ''face'', ''eye'', ''pupil'']"

definition resting_missing :: "string list" where
  "resting_missing = [''daq'', ''body_video_tracking'', ''face_video_tracking'',
                      ''eye_video_tracking'', ''pupil_tracking'']"

subsection \<open>The coercion of the acquisition table\<close>

text \<open>
  The coercion as the specification words it, on the array read for a column: the
  columns \<open>reward\<close>, \<open>state_lever\<close> and \<open>tone\<close> become boolean, true where the value is
  greater than zero; the column \<open>state_task\<close> becomes a 16-bit signed integer array; any
  other column is left as read. \<open>cells\<close> reads an array of any element type as floats.
\<close>

definition positive :: "float \<Rightarrow> bool" where
  "positive x = (case x of None \<Rightarrow> False | Some r \<Rightarrow> 0 < r)"

definition coerced :: "(float \<Rightarrow> 16 word) \<Rightarrow> string \<Rightarrow> ndarray \<Rightarrow> ndarray" where
  "coerced ovf column a =
     (if column \<in> set [''reward'', ''state_lever'', ''tone''] then Bool (map positive (cells a))
      else if column = ''state_task'' then Int16 (map (float_to_int16 ovf) (cells a))
      else a)"

subsection \<open>The summary of a table\<close>

text \<open>
  The row of a summary for a column, as the specification words it: the mean, the standard
  deviation, the minimum and the maximum of the values that are not missing, and the
  number of the missing values.
\<close>

definition summary_row :: "ndarray \<Rightarrow> float list" where
  "summary_row a =
     [mean (present (cells a)), std (present (cells a)), minimum (present (cells a)),
      maximum (present (cells a)), Some (real (isna_count (cells a)))]"


definition numeric_columns :: "dataframe \<Rightarrow> (label \<times> ndarray) list" where
  "numeric_columns tab = filter (\<lambda>(l, a). is_numeric a) (cols tab)"

definition numeric_summary :: "dataframe \<Rightarrow> summary" where
  "numeric_summary tab =
     \<lparr>columns = [''mean'', ''std'', ''min'', ''max'', ''nan_count''],
      rows = map (\<lambda>(l, a). (l, summary_row a)) (numeric_columns tab)\<rparr>"

subsection \<open>The blocks of the output file\<close>

text \<open>
  The label that \<open>sanity_check_nwb\<close> writes before the summary of a field, the block of a
  field that holds a table, and what \<open>stat_summary\<close> prints for it. A field is summarised
  by a table when it holds that table and \<open>stat_summary\<close> returns its summary.
\<close>

definition header :: "string \<Rightarrow> string" where
  "header df_name = ''\<newline>\<newline>\<newline>'' @ upper df_name @ '' summary\<newline>''"

definition block :: "string \<Rightarrow> dataframe \<Rightarrow> chunk list" where
  "block df_name tab = [Text (header df_name), Rendered (numeric_summary tab)]"

definition report :: "string \<Rightarrow> string \<Rightarrow> dataframe \<Rightarrow> out list" where
  "report nwb_path df_name tab =
     [Line (df_name @ '' summary for '' @ nwb_path), Frame (numeric_summary tab), Line []]"

definition summarised :: "session \<Rightarrow> string \<Rightarrow> dataframe \<Rightarrow> bool" where
  "summarised s df_name tab \<longleftrightarrow>
     getattr s df_name = Inr (TableV (Some tab)) \<and> numeric_columns tab \<noteq> [] \<and>
     distinct (map fst (cols tab))"

subsection \<open>Data products of a container\<close>

text \<open>
  The data product that \<open>read_video_tracking\<close> expects for a view, and whether a
  processing module of the container holds a data interface of a given name.
\<close>

definition expected_product :: "string \<Rightarrow> string" where
  "expected_product view =
     (if view = ''pupil'' then ''pupil_tracking'' else view @ ''_video_keypoints'')"

definition has_product :: "nwbfile \<Rightarrow> string \<Rightarrow> string \<Rightarrow> bool" where
  "has_product f pm name =
     (case lookup (processing f) pm of
        None \<Rightarrow> False
      | Some m \<Rightarrow> lookup m name \<noteq> None)"

section \<open>An example container\<close>

text \<open>
  A downsampled task session with five acquisition channels, keypoints of the face
  camera only, pupil tracking, a trial table and two regions of interest.
\<close>

definition example_downsampled :: processing_module where
  "example_downsampled =
     [(''reward_ds'', TimeSeries (Float64 [Some 0, Some 5])),
      (''state_lever_ds'', TimeSeries (Float64 [Some 1, Some (- 1)])),
      (''tone_ds'', TimeSeries (Float64 [None, Some 2])),
      (''state_task_ds'', TimeSeries (Float64 [Some 1, Some 3])),
      (''Running-speed_ds'', TimeSeries (Float64 [Some 4, None])),
      (''face_video_keypoints'',
         PoseEstimation [(''nose'', \<lparr>xy = [(Some 1, Some 2), (Some 3, None)],
                                     confidence = []\<rparr>)]),
      (''pupil_tracking'', PupilTracking [(''diameter'', Float64 [Some 3, Some 4])]),
      (''eye_position'',
         EyeTracking [(''center_x'', Float64 [Some 0, Some 1]),
                      (''center_y'', Float64 [Some 1, Some 0])]),
      (''trials'',
         DynamicTable \<lparr>index_name = Some ''id'',
                       cols = [(Name ''start_time'', Float64 [Some 0])]\<rparr>)]"

definition example_ophys :: processing_module where
  "example_ophys =
     [(''DfOverF'',
        DfOverF [(''dFF'', \<lparr>traces = [[Some 1, Some 2], [Some 3, None]],
                             rois_table = [(''roi_name'', [''M1_l'', ''M1_r'']),
                                           (''roi_description'', [''left'', ''right''])]\<rparr>)])]"

definition example_nwb :: nwbfile where
  "example_nwb =
     \<lparr>session_id = Some ''s1'', session_description = ''task'', file_notes = None,
      subject = Some \<lparr>subject_id = Some ''mouse01'',
                      date_of_birth = Some \<lparr>year = 2020, month = 3, mday = 7\<rparr>,
                      age = Some ''P90D'', sex = Some ''M''\<rparr>,
      acquisition = [(''widefield_blue'',
                      \<lparr>acq_data = Float64 [], timestamps = Float64 [Some 0, Some 1]\<rparr>)],
      processing = [(''downsampled'', example_downsampled), (''ophys'', example_ophys)],
      trials = Some \<lparr>index_name = Some ''id'',
                     cols = [(Name ''start_time'', Float64 [Some 0])]\<rparr>,
      intervals = []\<rparr>"

text \<open>The same container without its \<open>ophys\<close> module, and without its \<open>downsampled\<close> module.\<close>

definition example_no_ophys :: nwbfile where
  "example_no_ophys = example_nwb\<lparr>processing := [(''downsampled'', example_downsampled)]\<rparr>"

definition example_no_downsampled :: nwbfile where
  "example_no_downsampled = example_nwb\<lparr>processing := [(''ophys'', example_ophys)]\<rparr>"

definition example_fs :: "(string \<times> nwbfile) list" where
  "example_fs = [(''m1_2021-01-05_task-day1.nwb'', example_nwb),
                 (''m1_2021-01-06_task-day2.nwb'', example_no_ophys)]"

text \<open>The tables that loading the example gives, and the session record of the full shape.\<close>

definition example_daq :: dataframe where
  "example_daq =
     \<lparr>index_name = None,
      cols = [(Name ''reward'', Bool [False, True]),
              (Name ''state_lever'', Bool [True, False]),
              (Name ''tone'', Bool [False, True]),
              (Name ''state_task'', Int16 [1, 3]),
              (Name ''running_speed'', Float64 [Some 4, None])]\<rparr>"

text \<open>The acquisition table of the example when it is read as a sensory session.\<close>

definition example_daq_raw :: dataframe where
  "example_daq_raw =
     \<lparr>index_name = None,
      cols = [(Name ''reward'', Float64 [Some 0, Some 5]),
              (Name ''state_lever'', Float64 [Some 1, Some (- 1)]),
              (Name ''tone'', Float64 [None, Some 2]),
              (Name ''state_task'', Float64 [Some 1, Some 3]),
              (Name ''running_speed'', Float64 [Some 4, None])]\<rparr>"

definition example_face :: dataframe where
  "example_face =
     \<lparr>index_name = None,
      cols = [(Key ''nose'' ''x'', Float64 [Some 1, Some 3]),
              (Key ''nose'' ''y'', Float64 [Some 2, None])]\<rparr>"

definition example_pupil :: dataframe where
  "example_pupil =
     \<lparr>index_name = None,
      cols = [(Name ''diameter'', Float64 [Some 3, Some 4]),
              (Name ''center_x'', Float64 [Some 0, Some 1]),
              (Name ''center_y'', Float64 [Some 1, Some 0])]\<rparr>"

definition example_rois :: dataframe where
  "example_rois =
     \<lparr>index_name = None,
      cols = [(Name ''M1_l'', Float64 [Some 1, Some 2]),
              (Name ''M1_r'', Float64 [Some 3, None])]\<rparr>"

definition example_metadata :: metadata where
  "example_metadata =
     \<lparr>md_session_id = Some ''s1'', md_session_description = ''task'',
      md_session_notes = None, md_subject_id = Some ''mouse01'',
      md_subject_DoB = ''2020-03-07'', md_subject_age = Some ''P90D'',
      md_subject_sex = Some ''M''\<rparr>"

definition example_session :: session where
  "example_session =
     \<lparr>shape = NWBData,
      field_values =
        [MetadataV example_metadata,
         TimebaseV (Imaging (Float64 [Some 0, Some 1])),
         TableV (Some \<lparr>index_name = None, cols = [(Name ''start_time'', Float64 [Some 0])]\<rparr>),
         TableV (Some example_daq),
         TableV None,
         TableV (Some example_face),
         TableV None,
         TableV (Some example_pupil),
         TableV (Some example_rois),
         RoiDescV [(''M1_l'', ''left''), (''M1_r'', ''right'')]]\<rparr>"

text \<open>
  Sessions of the resting shape for the plots: the example with a pupil table of one
  column, or without a pupil table.
\<close>

definition pupil_session :: "float list option \<Rightarrow> session" where
  "pupil_session diameter =
     \<lparr>shape = NWBData_resting,
      field_values =
        [MetadataV example_metadata,
         TimebaseV (Imaging (Float64 [Some 0, Some 1])),
         TableV (Some example_daq),
         TableV None,
         TableV (Some example_face),
         TableV None,
         TableV (case diameter of
                   None \<Rightarrow> None
                 | Some xs \<Rightarrow> Some \<lparr>index_name = None, cols = [(Name ''diameter'', Float64 xs)]\<rparr>),
         TableV (Some example_rois),
         RoiDescV [(''M1_l'', ''left''), (''M1_r'', ''right'')]]\<rparr>"



section \<open>Properties\<close>

subsection \<open>Helper facts on dicts and strings\<close>

lemma lookup_zip_in: "lookup (zip ks vs) k = Some v \<Longrightarrow> v \<in> set vs"
  by (induction ks vs rule: list_induct2') (auto split: if_splits)

lemma lookup_zip_None: "k \<notin> set ks \<Longrightarrow> lookup (zip ks vs) k = None"
  by (induction ks vs rule: list_induct2') auto

lemma lookup_zip_Some:
  "length ks = length vs \<Longrightarrow> k \<in> set ks \<Longrightarrow> \<exists>v. lookup (zip ks vs) k = Some v"
  by (induction ks vs rule: list_induct2) auto

lemma replace_char: "replace_from [a] new s = concat (map (\<lambda>c. if c = a then new else [c]) s)"
  by (induction s) auto

lemma replace_char_append:
  "replace_from [a] new (s @ t) = replace_from [a] new s @ replace_from [a] new t"
  by (simp add: replace_char)

lemma replace_ds: "replace_from ''_ds'' [] s = drop_ds s"
  by (induction s rule: drop_ds.induct) (simp_all add: prefix_Cons)

lemma set_drop_ds: "set (drop_ds s) \<subseteq> set s"
  by (induction s rule: drop_ds.induct) auto

lemma lower_apart: "list_all (\<lambda>c. c \<notin> set ascii_upper \<and> c \<notin> set '' .-'') (CHR ''_'' # ascii_lower)"
  by code_simp

lemma punct_not_upper: "list_all (\<lambda>c. c \<notin> set ascii_upper) '' .-''"
  by code_simp

lemma lower_char_upper:
  assumes "c \<in> set ascii_upper"
  shows "lower_char c \<in> set ascii_lower"
proof -
  have len: "length ascii_upper = length ascii_lower"
    unfolding ascii_upper_def ascii_lower_def by simp
  from lookup_zip_Some [OF len assms]
  obtain v where v: "lookup (zip ascii_upper ascii_lower) c = Some v" ..
  from lookup_zip_in [OF v] have "v \<in> set ascii_lower" .
  then show ?thesis unfolding lower_char_def v by simp
qed

lemma lower_char_other: "c \<notin> set ascii_upper \<Longrightarrow> lower_char c = c"
  by (simp add: lower_char_def lookup_zip_None)

lemma lower_char_not_upper: "lower_char c \<notin> set ascii_upper"
proof (cases "c \<in> set ascii_upper")
  case True
  from lower_char_upper [OF this] lower_apart show ?thesis
    by (auto simp: list_all_iff)
next
  case False
  then show ?thesis by (simp add: lower_char_other)
qed

lemma lower_char_punct:
  assumes "x \<in> set '' .-''"
  shows "lower_char c = x \<longleftrightarrow> c = x"
proof (cases "c \<in> set ascii_upper")
  case True
  from lower_char_upper [OF this] lower_apart have "lower_char c \<notin> set '' .-''"
    by (auto simp: list_all_iff)
  moreover have "x \<notin> set ascii_upper"
    using assms punct_not_upper by (auto simp: list_all_iff)
  ultimately have "lower_char c \<noteq> x" "c \<noteq> x"
    using assms True by blast+
  then show ?thesis by simp
next
  case False
  then show ?thesis by (simp add: lower_char_other)
qed

subsection \<open>Column identifiers of read\_acquisition\<close>

lemma column_name_char:
  "replace_from ''-'' ''_'' (replace_from ''.'' [] (replace_from '' '' ''_'' [lower_char c]))
   = underscored c"
proof -
  have iff: "lower_char c = CHR '' '' \<longleftrightarrow> c = CHR '' ''"
    "lower_char c = CHR ''.'' \<longleftrightarrow> c = CHR ''.''"
    "lower_char c = CHR ''-'' \<longleftrightarrow> c = CHR ''-''"
    by (simp_all add: lower_char_punct)
  consider "c = CHR '' ''" | "c = CHR ''.''" | "c = CHR ''-''"
    | "c \<noteq> CHR '' ''" "c \<noteq> CHR ''.''" "c \<noteq> CHR ''-''" by blast
  then show ?thesis
  proof cases
    case 1
    then have "lower_char c = CHR '' ''" using iff by simp
    then show ?thesis using 1 by (simp add: underscored_def)
  next
    case 2
    then have "lower_char c = CHR ''.''" using iff by simp
    then show ?thesis using 2 by (simp add: underscored_def)
  next
    case 3
    then have "lower_char c = CHR ''-''" using iff by simp
    then show ?thesis using 3 by (simp add: underscored_def)
  next
    case 4
    then have "lower_char c \<noteq> CHR '' ''" "lower_char c \<noteq> CHR ''.''" "lower_char c \<noteq> CHR ''-''"
      using iff by simp_all
    then show ?thesis using 4 by (simp add: underscored_def)
  qed
qed

lemma column_name_chars:
  "replace_from ''-'' ''_'' (replace_from ''.'' [] (replace_from '' '' ''_'' (map lower_char name)))
   = concat (map underscored name)"
proof (induction name)
  case Nil
  show ?case by simp
next
  case (Cons c cs)
  have "map lower_char (c # cs) = [lower_char c] @ map lower_char cs" by simp
  then show ?case
    by (simp only: replace_char_append Cons column_name_char list.map concat.simps)
qed

lemma column_name_amended: "column_name name = amended_column name"
  by (simp add: column_name_def amended_column_def str_replace_def lower_def
      column_name_chars replace_ds)

lemma underscored_clean:
  "list_all (\<lambda>c. c \<notin> set ascii_upper \<and> c \<notin> set '' .-'') (underscored c)"
proof -
  have us: "CHR ''_'' \<notin> set ascii_upper \<and> CHR ''_'' \<notin> set '' .-''"
    using lower_apart by simp
  consider "c = CHR '' '' \<or> c = CHR ''-''" | "c = CHR ''.''"
    | "c \<noteq> CHR '' ''" "c \<noteq> CHR ''.''" "c \<noteq> CHR ''-''" by blast
  then show ?thesis
  proof cases
    case 1
    with us show ?thesis unfolding underscored_def by auto
  next
    case 2
    then show ?thesis by (simp add: underscored_def)
  next
    case 3
    then have "lower_char c \<noteq> CHR '' ''" "lower_char c \<noteq> CHR ''.''" "lower_char c \<noteq> CHR ''-''"
      by (simp_all add: lower_char_punct)
    with 3 lower_char_not_upper [of c] show ?thesis
      by (simp add: underscored_def)
  qed
qed

lemma amended_column_clean:
  "list_all (\<lambda>c. c \<notin> set ascii_upper \<and> c \<notin> set '' .-'') (amended_column name)"
proof -
  have "list_all (\<lambda>c. c \<notin> set ascii_upper \<and> c \<notin> set '' .-'') (concat (map underscored name))"
    using underscored_clean by (induction name) simp_all
  then show ?thesis
    unfolding amended_column_def list_all_iff using set_drop_ds by blast
qed

subsection \<open>The columns of the table of read\_acquisition\<close>

lemma bindE:
  assumes "bind m f = Inr y"
  obtains x where "m = Inr x" "f x = Inr y"
  using assms by (cases m) simp_all

lemma keys_dict_set: "fst ` set (dict_set d k v) = insert k (fst ` set d)"
  by (induction d) force+

lemma keys_dict_set_present:
  "lookup d k = Some a \<Longrightarrow> map fst (dict_set d k v) = map fst d"
  by (induction d) (auto split: if_splits)

lemma getitem_Inr: "getitem d k = Inr a \<Longrightarrow> lookup d k = Some a"
  by (cases "lookup d k") (simp_all add: getitem_def)

lemma collect_keys:
  assumes "collect parent names data = Inr data'"
  shows "fst ` set data' = fst ` set data \<union> column_name ` {n \<in> set names. \<not> skipped n}"
  using assms
proof (induction names arbitrary: data)
  case Nil
  then show ?case by simp
next
  case (Cons n ns)
  show ?case
  proof (cases "skipped n")
    case True
    with Cons.prems have "collect parent ns data = Inr data'" by simp
    from Cons.IH [OF this] True show ?thesis by auto
  next
    case False
    with Cons.prems have "bind (bind (get_data_interface parent n) data_of)
        (\<lambda>a. collect parent ns (dict_set data (column_name n) a)) = Inr data'"
      by simp
    then obtain a where "collect parent ns (dict_set data (column_name n) a) = Inr data'"
      by (rule bindE)
    from Cons.IH [OF this] False show ?thesis
      unfolding keys_dict_set by auto
  qed
qed

lemma convert_keys:
  assumes "convert g cs data = Inr data'"
  shows "map fst data' = map fst data"
  using assms
proof (induction cs arbitrary: data)
  case Nil
  then show ?case by simp
next
  case (Cons c cs)
  from Cons.prems have "bind (getitem data c) (\<lambda>a. convert g cs (dict_set data c (g a))) = Inr data'"
    by simp
  then obtain a where a: "getitem data c = Inr a"
    and rest: "convert g cs (dict_set data c (g a)) = Inr data'"
    by (rule bindE)
  from Cons.IH [OF rest] keys_dict_set_present [OF getitem_Inr [OF a]] show ?case
    by simp
qed

lemma DataFrame_cols: "DataFrame d = Inr tab \<Longrightarrow> cols tab = d"
  by (cases "length (remdups (map (\<lambda>(l, a). arr_len a) d)) \<le> 1")
    (auto simp: DataFrame_def)

lemma parent_of_read_acquisition:
  assumes "(if ds then get_processing_module f ''downsampled''
            else Inl (AttributeError ''data_interfaces'')) = Inr parent"
  shows "lookup (processing f) ''downsampled'' = Some parent"
proof (cases ds)
  case True
  with assms have "getitem (processing f) ''downsampled'' = Inr parent"
    by (simp add: get_processing_module_def)
  then show ?thesis by (rule getitem_Inr)
next
  case False
  with assms show ?thesis by simp
qed

lemma read_acquisition_task:
  assumes "read_acquisition ovf f ds False = Inr tab"
  obtains parent raw mid data where
    "lookup (processing f) ''downsampled'' = Some parent"
    "collect parent (map fst parent) [] = Inr raw"
    "convert gt_zero [''reward'', ''state_lever'', ''tone''] raw = Inr mid"
    "convert (astype_int16 ovf) [''state_task''] mid = Inr data"
    "cols tab = map (\<lambda>(c, a). (Name c, a)) data"
proof -
  from assms [unfolded read_acquisition_def] obtain parent where
    p: "(if ds then get_processing_module f ''downsampled''
         else Inl (AttributeError ''data_interfaces'')) = Inr parent"
    and 1: "bind (collect parent (map fst parent) []) (\<lambda>data.
       bind (if \<not> False
             then bind (convert gt_zero [''reward'', ''state_lever'', ''tone''] data)
                    (convert (astype_int16 ovf) [''state_task''])
             else Inr data) (\<lambda>data.
         DataFrame (map (\<lambda>(column, a). (Name column, a)) data))) = Inr tab"
    by (rule bindE)
  from 1 obtain raw where
    r: "collect parent (map fst parent) [] = Inr raw"
    and 2: "bind (if \<not> False
             then bind (convert gt_zero [''reward'', ''state_lever'', ''tone''] raw)
                    (convert (astype_int16 ovf) [''state_task''])
             else Inr raw) (\<lambda>data.
         DataFrame (map (\<lambda>(column, a). (Name column, a)) data)) = Inr tab"
    by (rule bindE)
  from 2 obtain data where
    c: "(if \<not> False
         then bind (convert gt_zero [''reward'', ''state_lever'', ''tone''] raw)
                (convert (astype_int16 ovf) [''state_task''])
         else Inr raw) = Inr data"
    and d: "DataFrame (map (\<lambda>(column, a). (Name column, a)) data) = Inr tab"
    by (rule bindE)
  from c have "bind (convert gt_zero [''reward'', ''state_lever'', ''tone''] raw)
                    (convert (astype_int16 ovf) [''state_task'']) = Inr data"
    by (simp only: not_False_eq_True if_True)
  then obtain mid where
    m1: "convert gt_zero [''reward'', ''state_lever'', ''tone''] raw = Inr mid"
    and m2: "convert (astype_int16 ovf) [''state_task''] mid = Inr data"
    by (rule bindE)
  from that [OF parent_of_read_acquisition [OF p] r m1 m2 DataFrame_cols [OF d]]
  show ?thesis .
qed

lemma read_acquisition_sensory:
  assumes "read_acquisition ovf f ds True = Inr tab"
  obtains parent raw where
    "lookup (processing f) ''downsampled'' = Some parent"
    "collect parent (map fst parent) [] = Inr raw"
    "cols tab = map (\<lambda>(c, a). (Name c, a)) raw"
proof -
  from assms [unfolded read_acquisition_def] obtain parent where
    p: "(if ds then get_processing_module f ''downsampled''
         else Inl (AttributeError ''data_interfaces'')) = Inr parent"
    and 1: "bind (collect parent (map fst parent) []) (\<lambda>data.
       bind (if \<not> True
             then bind (convert gt_zero [''reward'', ''state_lever'', ''tone''] data)
                    (convert (astype_int16 ovf) [''state_task''])
             else Inr data) (\<lambda>data.
         DataFrame (map (\<lambda>(column, a). (Name column, a)) data))) = Inr tab"
    by (rule bindE)
  from 1 obtain raw where
    r: "collect parent (map fst parent) [] = Inr raw"
    and 2: "bind (if \<not> True
             then bind (convert gt_zero [''reward'', ''state_lever'', ''tone''] raw)
                    (convert (astype_int16 ovf) [''state_task''])
             else Inr raw) (\<lambda>data.
         DataFrame (map (\<lambda>(column, a). (Name column, a)) data)) = Inr tab"
    by (rule bindE)
  from 2 obtain data where
    c: "(if \<not> True
         then bind (convert gt_zero [''reward'', ''state_lever'', ''tone''] raw)
                (convert (astype_int16 ovf) [''state_task''])
         else Inr raw) = Inr data"
    and d: "DataFrame (map (\<lambda>(column, a). (Name column, a)) data) = Inr tab"
    by (rule bindE)
  from c have "Inr raw = (Inr data :: error + (string \<times> ndarray) list)"
    by (simp only: not_True_eq_False if_False)
  then have "data = raw" by simp
  with d have "DataFrame (map (\<lambda>(column, a). (Name column, a)) raw) = Inr tab" by simp
  from that [OF parent_of_read_acquisition [OF p] r DataFrame_cols [OF this]]
  show ?thesis .
qed

lemma labels_of_columns: "fst ` set (map (\<lambda>(c, a). (Name c, a)) data) = Name ` fst ` set data"
  by (induction data) auto

lemma read_acquisition_labels:
  assumes "read_acquisition ovf f ds sens = Inr tab"
  shows "\<exists>parent. lookup (processing f) ''downsampled'' = Some parent \<and>
           fst ` set (cols tab)
             = (\<lambda>n. Name (column_name n)) ` {n \<in> set (map fst parent). \<not> skipped n}"
proof (cases sens)
  case True
  with assms have "read_acquisition ovf f ds True = Inr tab" by simp
  then obtain parent raw where
    p: "lookup (processing f) ''downsampled'' = Some parent"
    and r: "collect parent (map fst parent) [] = Inr raw"
    and c: "cols tab = map (\<lambda>(c, a). (Name c, a)) raw"
    by (rule read_acquisition_sensory)
  have "fst ` set (cols tab) = Name ` fst ` set raw"
    unfolding c by (rule labels_of_columns)
  also have "\<dots> = Name ` column_name ` {n \<in> set (map fst parent). \<not> skipped n}"
    unfolding collect_keys [OF r] by simp
  also have "\<dots> = (\<lambda>n. Name (column_name n)) ` {n \<in> set (map fst parent). \<not> skipped n}"
    by (simp only: image_image)
  finally show ?thesis using p by blast
next
  case False
  with assms have "read_acquisition ovf f ds False = Inr tab" by simp
  then obtain parent raw mid data where
    p: "lookup (processing f) ''downsampled'' = Some parent"
    and r: "collect parent (map fst parent) [] = Inr raw"
    and m1: "convert gt_zero [''reward'', ''state_lever'', ''tone''] raw = Inr mid"
    and m2: "convert (astype_int16 ovf) [''state_task''] mid = Inr data"
    and c: "cols tab = map (\<lambda>(c, a). (Name c, a)) data"
    by (rule read_acquisition_task)
  have "map fst data = map fst raw"
    using convert_keys [OF m2] convert_keys [OF m1] by simp
  then have "set (map fst data) = set (map fst raw)" by simp
  then have keys: "fst ` set data = fst ` set raw" by simp
  have "fst ` set (cols tab) = Name ` fst ` set data"
    unfolding c by (rule labels_of_columns)
  also have "\<dots> = Name ` column_name ` {n \<in> set (map fst parent). \<not> skipped n}"
    unfolding keys collect_keys [OF r] by simp
  also have "\<dots> = (\<lambda>n. Name (column_name n)) ` {n \<in> set (map fst parent). \<not> skipped n}"
    by (simp only: image_image)
  finally show ?thesis using p by blast
qed

text \<open>
  C1, as the specification states it: the column identifier is the name in lower case with
  spaces, periods, hyphens and a suffix \<open>_ds\<close> removed, so that \<open>Running-speed_ds\<close>
  yields \<open>runningspeed\<close>. The code gives \<open>running_speed\<close> there: a hyphen is replaced
  by an underscore. It also deletes a \<open>_ds\<close> that is no suffix.
\<close>

theorem column_name_not_as_claimed:
  "column_name ''Running-speed_ds'' = ''running_speed'' \<and>
   claimed_column ''Running-speed_ds'' = ''runningspeed'' \<and>
   column_name ''Running-speed_ds'' \<noteq> claimed_column ''Running-speed_ds'' \<and>
   column_name ''lick_ds_raw'' = ''lick_raw''"
  by code_simp

text \<open>
  C1, amended: the labels of the table that \<open>read_acquisition\<close> returns are the column
  identifiers of the data products it keeps. For every ASCII name, the column identifier
  is the name with every space and every hyphen replaced by an underscore, every period
  deleted and every other character in lower case, from which every \<open>_ds\<close> met reading
  from the left is then deleted; it holds no capital letter, space, period or hyphen.
\<close>

theorem column_name_sanitized:
  "(read_acquisition ovf f downsampled isSensory = Inr tab \<longrightarrow>
      (\<exists>parent. lookup (processing f) ''downsampled'' = Some parent \<and>
         fst ` set (cols tab)
           = (\<lambda>n. Name (column_name n)) ` {n \<in> set (map fst parent). \<not> skipped n})) \<and>
   (ascii name \<longrightarrow>
      column_name name = amended_column name \<and>
      list_all (\<lambda>c. c \<notin> set ascii_upper \<and> c \<notin> set '' .-'') (column_name name))"
  using read_acquisition_labels [of ovf f downsampled isSensory tab]
    column_name_amended [of name] amended_column_clean [of name]
  by simp

theorem column_name_sanitized_witness:
  "read_acquisition (\<lambda>x. 0) example_nwb True False = Inr example_daq \<and>
   (\<exists>parent. lookup (processing example_nwb) ''downsampled'' = Some parent \<and>
      fst ` set (cols example_daq)
        = (\<lambda>n. Name (column_name n)) ` {n \<in> set (map fst parent). \<not> skipped n}) \<and>
   ascii ''Running-speed_ds'' \<and>
   column_name ''Running-speed_ds'' = amended_column ''Running-speed_ds'' \<and>
   list_all (\<lambda>c. c \<notin> set ascii_upper \<and> c \<notin> set '' .-'') (column_name ''Running-speed_ds'') \<and>
   column_name ''Running-speed_ds'' = ''running_speed''"
proof -
  have a: "read_acquisition (\<lambda>x. 0) example_nwb True False = Inr example_daq"
    by code_simp
  have b: "ascii ''Running-speed_ds''"
    by code_simp
  have c: "column_name ''Running-speed_ds'' = ''running_speed''"
    by code_simp
  from column_name_sanitized [of "\<lambda>x. 0" example_nwb True False example_daq "''Running-speed_ds''"]
    a b c
  show ?thesis by blast
qed

subsection \<open>The file-name indexer\<close>

lemma first_some_Some: "first_some f xs = Some y \<Longrightarrow> \<exists>x\<in>set xs. f x = Some y"
  by (induction xs) (auto split: option.splits)

lemma first_some_found: "x \<in> set xs \<Longrightarrow> f x \<noteq> None \<Longrightarrow> first_some f xs \<noteq> None"
  by (induction xs) (auto split: option.splits)

lemma run_member: "1 \<le> k \<Longrightarrow> k \<le> n \<Longrightarrow> k \<in> set (rev [1..<Suc n])"
  by auto

text \<open>
  The matcher is sound and complete for the reading of a pattern as a sequence of words:
  it succeeds exactly on the strings that begin with words its tokens accept, and the
  groups it returns are those of such a sequence.
\<close>

lemma re_match_sound:
  "re_match ts s = Some gs \<Longrightarrow>
   \<exists>ws rest. list_all2 tok_ok ts ws \<and> s = concat ws @ rest \<and> gs = captured ts ws"
proof (induction ts s arbitrary: gs rule: re_match.induct)
  case (1 s)
  then show ?case by simp
next
  case (2 l ts s)
  then obtain ws rest where "list_all2 tok_ok ts ws" "drop (length l) s = concat ws @ rest"
    "gs = captured ts ws" "prefix l s"
    by (auto split: if_splits)
  moreover from this have "s = l @ concat ws @ rest"
    by (metis append_take_drop_id prefix_def append_eq_conv_conj)
  ultimately show ?case
    by (intro exI [of _ "l # ws"] exI [of _ rest]) simp
next
  case (3 p ts s)
  from first_some_Some [OF 3(2) [simplified]]
  obtain k gs' where k: "k \<in> set (rev [1..<Suc (length (takeWhile p s))])"
    and m: "re_match ts (drop k s) = Some gs'" and gs: "gs = take k s # gs'"
    by auto
  from 3(1) [OF m] obtain ws rest where ws: "list_all2 tok_ok ts ws"
    "drop k s = concat ws @ rest" "gs' = captured ts ws" by blast
  from k have k1: "1 \<le> k" "k \<le> length (takeWhile p s)" by auto
  then have "take k s = take k (takeWhile p s)"
    by (metis takeWhile_dropWhile_id take_append diff_is_0_eq take_0 append_Nil2)
  then have "list_all p (take k s)"
    by (metis in_set_takeD list_all_iff set_takeWhileD)
  moreover have "take k s \<noteq> []" using k1 length_takeWhile_le [of p s] by auto
  moreover have "s = take k s @ concat ws @ rest" using ws(2) by (metis append_take_drop_id)
  ultimately show ?case using ws gs
    by (intro exI [of _ "take k s # ws"] exI [of _ rest]) simp
next
  case (4 alts ts s)
  from first_some_Some [OF 4(2) [simplified]]
  obtain w gs' where w: "w \<in> set alts" "prefix w s"
    and m: "re_match ts (drop (length w) s) = Some gs'" and gs: "gs = w # gs'"
    by (auto split: if_splits)
  from 4(1) w m obtain ws rest where ws: "list_all2 tok_ok ts ws"
    "drop (length w) s = concat ws @ rest" "gs' = captured ts ws" by blast
  have "s = w @ concat ws @ rest" using w(2) ws(2)
    by (metis append_take_drop_id prefix_def append_eq_conv_conj)
  then show ?case using ws gs w
    by (intro exI [of _ "w # ws"] exI [of _ rest]) simp
qed

lemma re_match_complete:
  "list_all2 tok_ok ts ws \<Longrightarrow> re_match ts (concat ws @ rest) \<noteq> None"
proof (induction ts ws arbitrary: rest rule: list_all2_induct)
  case Nil
  then show ?case by simp
next
  case (Cons t ts w ws)
  show ?case
  proof (cases t)
    case (Lit l)
    with Cons show ?thesis by simp
  next
    case (Some_of p)
    with Cons have w: "w \<noteq> []" "list_all p w" by simp_all
    let ?s = "concat (w # ws) @ rest"
    have "length w \<le> length (takeWhile p ?s)"
      using w(2) by (simp add: takeWhile_append2 list_all_iff)
    moreover have "1 \<le> length w" using w(1) by (cases w) simp_all
    ultimately have "length w \<in> set (rev [1..<Suc (length (takeWhile p ?s))])"
      by (rule run_member [rotated])
    moreover have "map_option ((#) (take (length w) ?s)) (re_match ts (drop (length w) ?s)) \<noteq> None"
      using Cons.IH [of rest] by simp
    ultimately have "first_some (\<lambda>k. map_option ((#) (take k ?s)) (re_match ts (drop k ?s)))
       (rev [1..<Suc (length (takeWhile p ?s))]) \<noteq> None"
      by (rule first_some_found)
    then show ?thesis unfolding Some_of re_match.simps .
  next
    case (One_of alts)
    with Cons have w: "w \<in> set alts" by simp
    let ?s = "concat (w # ws) @ rest"
    have "(if prefix w ?s then map_option ((#) w) (re_match ts (drop (length w) ?s)) else None) \<noteq> None"
      using Cons.IH [of rest] by simp
    with w have "first_some (\<lambda>w. if prefix w ?s
                      then map_option ((#) w) (re_match ts (drop (length w) ?s))
                      else None) alts \<noteq> None"
      by (rule first_some_found)
    then show ?thesis unfolding One_of re_match.simps .
  qed
qed

lemma re_match_None_iff:
  "re_match ts s = None \<longleftrightarrow> \<not> (\<exists>ws rest. list_all2 tok_ok ts ws \<and> s = concat ws @ rest)"
proof
  assume none: "re_match ts s = None"
  show "\<not> (\<exists>ws rest. list_all2 tok_ok ts ws \<and> s = concat ws @ rest)"
  proof
    assume "\<exists>ws rest. list_all2 tok_ok ts ws \<and> s = concat ws @ rest"
    then obtain ws rest where "list_all2 tok_ok ts ws" "s = concat ws @ rest" by blast
    with re_match_complete [of ts ws rest] none show False by simp
  qed
next
  assume no: "\<not> (\<exists>ws rest. list_all2 tok_ok ts ws \<and> s = concat ws @ rest)"
  show "re_match ts s = None"
  proof (cases "re_match ts s")
    case None
    then show ?thesis .
  next
    case (Some gs)
    from re_match_sound [OF this] no show ?thesis by blast
  qed
qed

lemma file_matcher_tokens:
  "file_matcher = [Some_of alnum_hyphen, Lit ''_'', Some_of digit_hyphen, Lit ''_'',
      One_of type_indexer, Lit ''-day'', Some_of digit]"
  by (simp add: file_matcher_def type_indexer_def)

lemma file_matcher_words:
  "list_all2 tok_ok file_matcher ws \<longleftrightarrow>
   (\<exists>subj date kind dayno. ws = [subj, ''_'', date, ''_'', kind, ''-day'', dayno] \<and>
      subj \<noteq> [] \<and> list_all alnum_hyphen subj \<and> date \<noteq> [] \<and> list_all digit_hyphen date \<and>
      kind \<in> set type_indexer \<and> dayno \<noteq> [] \<and> list_all digit dayno)"
  unfolding file_matcher_tokens by (auto simp: list_all2_Cons1)

lemma file_matcher_accepts:
  "(\<exists>ws rest. list_all2 tok_ok file_matcher ws \<and> s = concat ws @ rest) \<longleftrightarrow> convention_prefix s"
proof
  assume "\<exists>ws rest. list_all2 tok_ok file_matcher ws \<and> s = concat ws @ rest"
  then obtain ws rest where a: "list_all2 tok_ok file_matcher ws" and s: "s = concat ws @ rest"
    by blast
  from a [unfolded file_matcher_words] obtain subj date kind dayno where
    ws: "ws = [subj, ''_'', date, ''_'', kind, ''-day'', dayno]"
    and ok: "subj \<noteq> []" "list_all alnum_hyphen subj" "date \<noteq> []" "list_all digit_hyphen date"
      "kind \<in> set type_indexer" "dayno \<noteq> []" "list_all digit dayno"
    by blast
  from s ws have "s = subj @ ''_'' @ date @ ''_'' @ kind @ ''-day'' @ dayno @ rest" by simp
  with ok show "convention_prefix s"
    unfolding convention_prefix_def
    by (intro exI [of _ subj] exI [of _ date] exI [of _ kind] exI [of _ dayno] exI [of _ rest] conjI)
next
  assume "convention_prefix s"
  then obtain subj date kind dayno rest where
    s: "s = subj @ ''_'' @ date @ ''_'' @ kind @ ''-day'' @ dayno @ rest"
    and ok: "subj \<noteq> []" "list_all alnum_hyphen subj" "date \<noteq> []" "list_all digit_hyphen date"
      "kind \<in> set type_indexer" "dayno \<noteq> []" "list_all digit dayno"
    unfolding convention_prefix_def by blast
  from ok have "list_all2 tok_ok file_matcher [subj, ''_'', date, ''_'', kind, ''-day'', dayno]"
    unfolding file_matcher_words by blast
  moreover from s have "s = concat [subj, ''_'', date, ''_'', kind, ''-day'', dayno] @ rest"
    by simp
  ultimately show "\<exists>ws rest. list_all2 tok_ok file_matcher ws \<and> s = concat ws @ rest"
    by blast
qed

lemma file_matcher_None_iff:
  "re_match file_matcher s = None \<longleftrightarrow> \<not> convention_prefix s"
  unfolding re_match_None_iff file_matcher_accepts ..

lemma file_matcher_groups:
  assumes "re_match file_matcher s = Some gs"
  shows "length gs = 4 \<and> gs ! 2 \<in> set type_indexer"
proof -
  from re_match_sound [OF assms] obtain ws where
    a: "list_all2 tok_ok file_matcher ws" and gs: "gs = captured file_matcher ws" by blast
  from a [unfolded file_matcher_words] obtain subj date kind dayno where
    "ws = [subj, ''_'', date, ''_'', kind, ''-day'', dayno]" "kind \<in> set type_indexer"
    by blast
  with gs have "gs = [subj, date, kind, dayno]"
    by (simp add: file_matcher_tokens)
  with \<open>kind \<in> set type_indexer\<close> show ?thesis by simp
qed

lemma list_index_Some: "x \<in> set xs \<Longrightarrow> \<exists>i. list_index xs x = Some i"
  by (induction xs) auto

lemma indexer_None:
  assumes "re_match file_matcher (stem name) = None"
  shows "nwb_file_indexer name = Inl (ValueError (''file does not match: '' @ stem name))"
  unfolding nwb_file_indexer_def assms by simp

lemma indexer_Some:
  assumes "re_match file_matcher (stem name) = Some gs"
  shows "\<exists>r. nwb_file_indexer name = Inr r"
proof -
  from file_matcher_groups [OF assms] have "gs ! 2 \<in> set type_indexer" ..
  from list_index_Some [OF this] obtain i where i: "list_index type_indexer (gs ! 2) = Some i" ..
  show ?thesis unfolding nwb_file_indexer_def assms option.case i by blast
qed

text \<open>
  Whenever the stem of a name follows the convention, the indexer returns a key. (The
  limit CPython puts on the number of digits \<open>int\<close> accepts is far above the length of a
  file name and is not modelled.)
\<close>

lemma indexer_returns:
  assumes "convention_prefix (stem name)"
  shows "\<exists>r. nwb_file_indexer name = Inr r"
proof (cases "re_match file_matcher (stem name)")
  case None
  with assms show ?thesis by (simp add: file_matcher_None_iff)
next
  case (Some gs)
  then show ?thesis by (rule indexer_Some)
qed

lemma convention_underscore: "convention_prefix s \<Longrightarrow> CHR ''_'' \<in> set s"
  by (auto simp: convention_prefix_def)

lemma convention_prefix_iff: "convention_prefix s \<longleftrightarrow> re_match file_matcher s \<noteq> None"
  by (simp add: file_matcher_None_iff)

text \<open>
  A name that follows the convention of the specification is matched by the pattern
  followed by a period.
\<close>

lemma follows_convention_dot:
  assumes "follows_convention name"
  shows "re_match (file_matcher @ [Lit ''.'']) name \<noteq> None"
proof -
  from assms obtain subj date kind dayno ext where
    n: "name = subj @ ''_'' @ date @ ''_'' @ kind @ ''-day'' @ dayno @ ''.'' @ ext"
    and ok: "subj \<noteq> []" "list_all alnum_hyphen subj" "date \<noteq> []" "list_all digit_hyphen date"
      "kind \<in> set type_indexer" "dayno \<noteq> []" "list_all digit dayno"
    unfolding follows_convention_def by blast
  from ok have "list_all2 tok_ok file_matcher [subj, ''_'', date, ''_'', kind, ''-day'', dayno]"
    unfolding file_matcher_words by blast
  moreover have "list_all2 tok_ok [Lit ''.''] [''.'']" by simp
  ultimately have "list_all2 tok_ok (file_matcher @ [Lit ''.''])
      ([subj, ''_'', date, ''_'', kind, ''-day'', dayno] @ [''.''])"
    by (rule list_all2_appendI)
  from re_match_complete [OF this, of ext] n show ?thesis by simp
qed

text \<open>
  C7, as the specification states it: the indexer raises on any name that does not match
  the convention \<open><subject>_<date>_<type>-day<N>.<ext>\<close>. The name
  \<open>mouse01_2021-01-05_task-day3abc.nwb\<close> does not match it, since letters follow the day
  number, and the indexer returns a key for it: \<open>re.match\<close> asks nothing of the text
  after the day number.
\<close>

theorem indexer_accepts_trailing_text:
  "\<not> follows_convention ''mouse01_2021-01-05_task-day3abc.nwb'' \<and>
   nwb_file_indexer ''mouse01_2021-01-05_task-day3abc.nwb''
     = Inr (''mouse01'', ''2021-01-05'', 0, 3)"
proof
  have none: "re_match (file_matcher @ [Lit ''.'']) ''mouse01_2021-01-05_task-day3abc.nwb'' = None"
    by code_simp
  show "\<not> follows_convention ''mouse01_2021-01-05_task-day3abc.nwb''"
  proof
    assume "follows_convention ''mouse01_2021-01-05_task-day3abc.nwb''"
    from follows_convention_dot [OF this] none show False by simp
  qed
  show "nwb_file_indexer ''mouse01_2021-01-05_task-day3abc.nwb''
          = Inr (''mouse01'', ''2021-01-05'', 0, 3)"
    by code_simp
qed

text \<open>
  C7, amended: the indexer returns \<open>("mouse01", "2021-01-05", 0, 3)\<close> on
  \<open>mouse01_2021-01-05_task-day3.ext\<close> and \<open>("mouse01", "2021-01-05", 1, 1)\<close> on
  \<open>mouse01_2021-01-05_resting-state-day1.ext\<close>; it raises \<open>ValueError\<close> on every name
  whose stem does not begin with subject, date, session type and day number as the
  pattern asks, and it returns a key on every other name, whatever follows the day
  number.
\<close>

theorem nwb_file_indexer_spec:
  "nwb_file_indexer ''mouse01_2021-01-05_task-day3.ext''
     = Inr (''mouse01'', ''2021-01-05'', 0, 3) \<and>
   nwb_file_indexer ''mouse01_2021-01-05_resting-state-day1.ext''
     = Inr (''mouse01'', ''2021-01-05'', 1, 1) \<and>
   (\<not> convention_prefix (stem name) \<longrightarrow>
      nwb_file_indexer name = Inl (ValueError (''file does not match: '' @ stem name))) \<and>
   (convention_prefix (stem name) \<longrightarrow> (\<exists>key. nwb_file_indexer name = Inr key))"
proof (intro conjI impI)
  show "nwb_file_indexer ''mouse01_2021-01-05_task-day3.ext''
          = Inr (''mouse01'', ''2021-01-05'', 0, 3)"
    by code_simp
  show "nwb_file_indexer ''mouse01_2021-01-05_resting-state-day1.ext''
          = Inr (''mouse01'', ''2021-01-05'', 1, 1)"
    by code_simp
next
  assume "\<not> convention_prefix (stem name)"
  then have "re_match file_matcher (stem name) = None"
    by (simp add: file_matcher_None_iff)
  then show "nwb_file_indexer name = Inl (ValueError (''file does not match: '' @ stem name))"
    by (rule indexer_None)
next
  assume "convention_prefix (stem name)"
  then show "\<exists>key. nwb_file_indexer name = Inr key"
    by (rule indexer_returns)
qed

theorem nwb_file_indexer_spec_witness:
  "\<not> convention_prefix (stem ''notes.txt'') \<and>
   nwb_file_indexer ''notes.txt'' = Inl (ValueError ''file does not match: notes'') \<and>
   convention_prefix (stem ''mouse01_2021-01-05_task-day3abc.nwb'') \<and>
   (\<exists>key. nwb_file_indexer ''mouse01_2021-01-05_task-day3abc.nwb'' = Inr key)"
proof -
  have st: "stem ''notes.txt'' = ''notes''" by code_simp
  have no: "\<not> convention_prefix (stem ''notes.txt'')"
  proof
    assume "convention_prefix (stem ''notes.txt'')"
    from convention_underscore [OF this] show False unfolding st by simp
  qed
  have "re_match file_matcher (stem ''mouse01_2021-01-05_task-day3abc.nwb'') \<noteq> None"
    by code_simp
  then have yes: "convention_prefix (stem ''mouse01_2021-01-05_task-day3abc.nwb'')"
    by (simp add: convention_prefix_iff)
  from nwb_file_indexer_spec [of "''notes.txt''"]
    nwb_file_indexer_spec [of "''mouse01_2021-01-05_task-day3abc.nwb''"] no yes
  show ?thesis unfolding st by simp
qed

subsection \<open>Errors and the container handle\<close>

lemma bind_Inr_iff: "bind m f = Inr y \<longleftrightarrow> (\<exists>x. m = Inr x \<and> f x = Inr y)"
  by (cases m) simp_all

lemma bind_Inl_iff: "bind m f = Inl e \<longleftrightarrow> m = Inl e \<or> (\<exists>x. m = Inr x \<and> f x = Inl e)"
  by (cases m) simp_all

lemma load_events:
  "snd (load_from_file ovf fs path ds isR isS) =
     (if lookup fs path = None then [] else [Opened path, Closed path])"
  by (auto simp: load_from_file_def with_NWBHDF5IO_def split: option.splits)

lemma load_fst:
  "lookup fs path = Some f \<Longrightarrow>
   fst (load_from_file ovf fs path ds isR isS) =
     bind (read_all ovf ds isR isS f) (\<lambda>data.
             if isR then construct NWBData_resting data
             else if isS then construct NWBData_sensory data
             else construct NWBData data)"
  by (simp add: load_from_file_def with_NWBHDF5IO_def)

lemma read_all_roi:
  assumes "read_all ovf ds isR isS f = Inr data"
  shows "\<exists>r. read_roi_dFF f = Inr r"
  using assms unfolding read_all_def
  by (auto simp: bind_Inr_iff split: if_splits)

subsection \<open>stat\_summary on a missing table\<close>

text \<open>
  C9: for every session record and every field name whose value in the record is \<open>None\<close>,
  \<open>stat_summary\<close> returns \<open>None\<close> and does not raise; it prints the absence when it is
  verbose.
\<close>

theorem stat_summary_of_None:
  assumes "getattr s df_name = Inr (TableV None)"
  shows "stat_summary s df_name nwb_path verbose =
           Inr (None, if verbose
                      then [Line (''***no '' @ df_name @ '' found in '' @ str_of nwb_path), Line []]
                      else [])"
  using assms by (simp add: stat_summary_def)

theorem stat_summary_of_None_witness:
  "getattr example_session ''body_video_tracking'' = Inr (TableV None) \<and>
   stat_summary example_session ''body_video_tracking'' (Some ''a.nwb'') True =
     Inr (None, [Line ''***no body_video_tracking found in a.nwb'', Line []])"
proof -
  have g: "getattr example_session ''body_video_tracking'' = Inr (TableV None)"
    by code_simp
  from stat_summary_of_None [OF g, of "Some ''a.nwb''" True] g show ?thesis
    by (simp add: str_of_def)
qed

subsection \<open>load\_from\_file on a missing required data product\<close>

lemma roi_needs_product:
  assumes "\<not> has_product f ''ophys'' ''DfOverF''"
  shows "\<exists>e. read_roi_dFF f = Inl e"
  using assms unfolding has_product_def read_roi_dFF_def get_processing_module_def
    get_data_interface_def getitem_def
  by (auto split: option.splits)

lemma read_all_needs_product:
  assumes "\<not> has_product f ''ophys'' ''DfOverF''"
  shows "\<exists>e. read_all ovf ds isR isS f = Inl e"
proof (cases "read_all ovf ds isR isS f")
  case (Inl e)
  then show ?thesis by blast
next
  case (Inr data)
  from read_all_roi [OF this] roi_needs_product [OF assms] show ?thesis by auto
qed

text \<open>
  C5: on a container that is there, whenever a step of the extraction raises (as
  \<open>read_roi_dFF\<close> does when the \<open>ophys\<close> module or its \<open>DfOverF\<close> interface is
  missing), \<open>load_from_file\<close> raises that error and returns no record; and on that exit
  as on every other the container that was opened has been closed.
\<close>

theorem load_raises_without_roi:
  assumes "lookup fs path = Some f"
  shows "(\<not> has_product f ''ophys'' ''DfOverF'' \<longrightarrow>
            (\<exists>e. load_from_file ovf fs path ds isR isS = (Inl e, [Opened path, Closed path]))) \<and>
         (read_all ovf ds isR isS f = Inl e \<longrightarrow>
            load_from_file ovf fs path ds isR isS = (Inl e, [Opened path, Closed path])) \<and>
         snd (load_from_file ovf fs path ds isR isS) = [Opened path, Closed path]"
proof -
  have ev: "snd (load_from_file ovf fs path ds isR isS) = [Opened path, Closed path]"
    using assms by (simp add: load_events)
  have raise: "load_from_file ovf fs path ds isR isS = (Inl e', [Opened path, Closed path])"
    if "read_all ovf ds isR isS f = Inl e'" for e'
  proof -
    from that load_fst [OF assms, of ovf ds isR isS]
    have "fst (load_from_file ovf fs path ds isR isS) = Inl e'" by simp
    with ev show ?thesis by (metis prod.collapse)
  qed
  show ?thesis
  proof (intro conjI impI)
    assume "\<not> has_product f ''ophys'' ''DfOverF''"
    from read_all_needs_product [OF this] obtain e' where
      "read_all ovf ds isR isS f = Inl e'" ..
    from raise [OF this]
    show "\<exists>e. load_from_file ovf fs path ds isR isS = (Inl e, [Opened path, Closed path])" ..
  next
    assume "read_all ovf ds isR isS f = Inl e"
    then show "load_from_file ovf fs path ds isR isS = (Inl e, [Opened path, Closed path])"
      by (rule raise)
  next
    show "snd (load_from_file ovf fs path ds isR isS) = [Opened path, Closed path]"
      by (rule ev)
  qed
qed

theorem load_raises_without_roi_witness:
  "lookup example_fs ''m1_2021-01-06_task-day2.nwb'' = Some example_no_ophys \<and>
   \<not> has_product example_no_ophys ''ophys'' ''DfOverF'' \<and>
   read_all (\<lambda>x. 0) True False False example_no_ophys = Inl (KeyError ''ophys'') \<and>
   load_from_file (\<lambda>x. 0) example_fs ''m1_2021-01-06_task-day2.nwb'' True False False =
     (Inl (KeyError ''ophys''),
      [Opened ''m1_2021-01-06_task-day2.nwb'', Closed ''m1_2021-01-06_task-day2.nwb''])"
proof -
  have a: "lookup example_fs ''m1_2021-01-06_task-day2.nwb'' = Some example_no_ophys"
    by code_simp
  have b: "\<not> has_product example_no_ophys ''ophys'' ''DfOverF''"
    by code_simp
  have c: "read_all (\<lambda>x. 0) True False False example_no_ophys = Inl (KeyError ''ophys'')"
    by code_simp
  from load_raises_without_roi [OF a, of "\<lambda>x. 0" True False False "KeyError ''ophys''"] b c
  show ?thesis using a by simp
qed

subsection \<open>Both flags of load\_from\_file\<close>

lemma read_all_both:
  assumes "read_all ovf ds True True f = Inr data"
  shows "\<exists>md tb rois descs.
           data = [(''metadata'', MetadataV md), (''timebase'', TimebaseV tb),
                   (''rois'', TableV (Some rois)), (''roi_description'', RoiDescV descs)]"
  using assms unfolding read_all_def
  by (auto simp: bind_Inr_iff)

lemma construct_resting_both:
  "construct NWBData_resting
     [(''metadata'', MetadataV md), (''timebase'', TimebaseV tb),
      (''rois'', TableV (Some rois)), (''roi_description'', RoiDescV descs)]
   = Inl (TypeError ''missing required positional arguments'' resting_missing)"
  by (simp add: construct_def resting_missing_def)

lemma load_both_fst:
  "\<exists>e. fst (load_from_file ovf fs path ds True True) = Inl e"
proof (cases "lookup fs path")
  case None
  then show ?thesis by (simp add: load_from_file_def with_NWBHDF5IO_def)
next
  case (Some f)
  show ?thesis
  proof (cases "read_all ovf ds True True f")
    case (Inl e)
    with load_fst [OF Some, of ovf ds True True] show ?thesis by simp
  next
    case (Inr data)
    from read_all_both [OF this] obtain md tb rois descs where
      "data = [(''metadata'', MetadataV md), (''timebase'', TimebaseV tb),
               (''rois'', TableV (Some rois)), (''roi_description'', RoiDescV descs)]"
      by blast
    with Inr load_fst [OF Some, of ovf ds True True] show ?thesis
      by (simp add: construct_resting_both)
  qed
qed

text \<open>
  C10: with \<open>isResting\<close> and \<open>isSensory\<close> both true, \<open>load_from_file\<close> returns no record
  of any shape. When the extraction succeeds it chooses the resting shape, whose
  construction raises \<open>TypeError\<close> for the five fields that the sensory flag left out.
  So a load that returns a record had at most one of the two flags true.
\<close>

theorem load_resting_and_sensory:
  "(\<exists>e. fst (load_from_file ovf fs path ds True True) = Inl e) \<and>
   (lookup fs path = Some f \<and> read_metadata f = Inr md \<and> read_timebases f ds = Inr tb \<and>
    read_roi_dFF f = Inr rd \<longrightarrow>
      load_from_file ovf fs path ds True True =
        (Inl (TypeError ''missing required positional arguments'' resting_missing),
         [Opened path, Closed path])) \<and>
   (fst (load_from_file ovf fs path ds isResting isSensory) = Inr s \<longrightarrow>
      \<not> (isResting \<and> isSensory))"
proof (intro conjI impI)
  show "\<exists>e. fst (load_from_file ovf fs path ds True True) = Inl e"
    by (rule load_both_fst)
next
  assume a: "lookup fs path = Some f \<and> read_metadata f = Inr md \<and>
    read_timebases f ds = Inr tb \<and> read_roi_dFF f = Inr rd"
  obtain rois descs where rd: "rd = (rois, descs)" by (cases rd)
  from a rd have "read_all ovf ds True True f =
      Inr [(''metadata'', MetadataV md), (''timebase'', TimebaseV tb),
           (''rois'', TableV (Some rois)), (''roi_description'', RoiDescV descs)]"
    by (simp add: read_all_def)
  with a have "fst (load_from_file ovf fs path ds True True) =
      Inl (TypeError ''missing required positional arguments'' resting_missing)"
    by (simp add: load_fst construct_resting_both)
  moreover from a have "snd (load_from_file ovf fs path ds True True) = [Opened path, Closed path]"
    by (simp add: load_events)
  ultimately show "load_from_file ovf fs path ds True True =
        (Inl (TypeError ''missing required positional arguments'' resting_missing),
         [Opened path, Closed path])"
    by (metis prod.collapse)
next
  assume s: "fst (load_from_file ovf fs path ds isResting isSensory) = Inr s"
  show "\<not> (isResting \<and> isSensory)"
  proof
    assume "isResting \<and> isSensory"
    with s load_both_fst [of ovf fs path ds] show False by auto
  qed
qed

theorem load_resting_and_sensory_witness:
  "lookup example_fs ''m1_2021-01-05_task-day1.nwb'' = Some example_nwb \<and>
   read_metadata example_nwb = Inr example_metadata \<and>
   read_timebases example_nwb True = Inr (Imaging (Float64 [Some 0, Some 1])) \<and>
   read_roi_dFF example_nwb = Inr (example_rois, [(''M1_l'', ''left''), (''M1_r'', ''right'')]) \<and>
   load_from_file (\<lambda>x. 0) example_fs ''m1_2021-01-05_task-day1.nwb'' True True True =
     (Inl (TypeError ''missing required positional arguments''
            [''daq'', ''body_video_tracking'', ''face_video_tracking'',
             ''eye_video_tracking'', ''pupil_tracking'']),
      [Opened ''m1_2021-01-05_task-day1.nwb'', Closed ''m1_2021-01-05_task-day1.nwb'']) \<and>
   (case fst (load_from_file (\<lambda>x. 0) example_fs ''m1_2021-01-05_task-day1.nwb'' True True False) of
      Inl e \<Rightarrow> False
    | Inr s \<Rightarrow> shape s = NWBData_resting)"
proof -
  have a: "lookup example_fs ''m1_2021-01-05_task-day1.nwb'' = Some example_nwb"
    by code_simp
  have b: "read_metadata example_nwb = Inr example_metadata"
    by code_simp
  have c: "read_timebases example_nwb True = Inr (Imaging (Float64 [Some 0, Some 1]))"
    by code_simp
  have d: "read_roi_dFF example_nwb = Inr (example_rois, [(''M1_l'', ''left''), (''M1_r'', ''right'')])"
    by code_simp
  have e: "(case fst (load_from_file (\<lambda>x. 0) example_fs ''m1_2021-01-05_task-day1.nwb'' True True False) of
      Inl e \<Rightarrow> False
    | Inr s \<Rightarrow> shape s = NWBData_resting)"
    by code_simp
  from load_resting_and_sensory [of "\<lambda>x. 0" example_fs "''m1_2021-01-05_task-day1.nwb''" True
      example_nwb example_metadata "Imaging (Float64 [Some 0, Some 1])"
      "(example_rois, [(''M1_l'', ''left''), (''M1_r'', ''right'')])"]
  show ?thesis using a b c d e by (simp add: resting_missing_def)
qed

subsection \<open>read\_video\_tracking on an absent data product\<close>

text \<open>
  C8, as the specification states it: \<open>read_video_tracking\<close> returns \<open>None\<close> and does not
  raise whenever the expected data product is absent from the container. A container
  without the \<open>downsampled\<close> processing module holds no keypoints of the body camera,
  and the code raises \<open>KeyError\<close> on it.
\<close>

theorem read_video_tracking_module_missing:
  "list_all (\<lambda>(name, m). lookup m (expected_product ''body'') = None)
     (processing example_no_downsampled) \<and>
   read_video_tracking example_no_downsampled ''body'' True = Inl (KeyError ''downsampled'') \<and>
   read_video_tracking example_no_downsampled ''body'' True \<noteq> Inr None"
  by code_simp


text \<open>
  C8, amended: for every view among body, face, eye and pupil, \<open>read_video_tracking\<close>
  returns \<open>None\<close> when the processing module it reads (\<open>downsampled\<close>, or \<open>behavior\<close>
  for the raw data) is there and holds no data interface of the expected name; it raises
  \<open>KeyError\<close> when that module is absent; and it raises \<open>ValueError\<close> for every other
  view, whatever the container holds.
\<close>

theorem read_video_tracking_absent:
  "(view \<in> set views \<and>
    lookup (processing f) (if ds then ''downsampled'' else ''behavior'') = Some m \<and>
    lookup m (expected_product view) = None
      \<longrightarrow> read_video_tracking f view ds = Inr None) \<and>
   (view \<in> set views \<and>
    lookup (processing f) (if ds then ''downsampled'' else ''behavior'') = None
      \<longrightarrow> read_video_tracking f view ds
            = Inl (KeyError (if ds then ''downsampled'' else ''behavior''))) \<and>
   (view \<notin> set views
      \<longrightarrow> read_video_tracking f view ds
            = Inl (ValueError (''expected body, face, eye or pupil, but got '' @ view)))"
  by (auto simp: read_video_tracking_def views_def expected_product_def
      get_processing_module_def getitem_def)

theorem read_video_tracking_absent_witness:
  "''body'' \<in> set views \<and>
   lookup (processing example_nwb) ''downsampled'' = Some example_downsampled \<and>
   lookup example_downsampled (expected_product ''body'') = None \<and>
   read_video_tracking example_nwb ''body'' True = Inr None \<and>
   ''tail'' \<notin> set views \<and>
   read_video_tracking example_nwb ''tail'' True
     = Inl (ValueError ''expected body, face, eye or pupil, but got tail'')"
proof -
  have a: "''body'' \<in> set views" "''tail'' \<notin> set views" by (simp_all add: views_def)
  have b: "lookup (processing example_nwb) ''downsampled'' = Some example_downsampled"
    by code_simp
  have c: "lookup example_downsampled (expected_product ''body'') = None"
    by code_simp
  from read_video_tracking_absent [of "''body''" example_nwb True example_downsampled]
    read_video_tracking_absent [of "''tail''" example_nwb True example_downsampled]
  show ?thesis using a b c by simp
qed

subsection \<open>The coercion of the acquisition table\<close>

lemma lookup_dict_set: "lookup (dict_set d k v) k' = (if k' = k then Some v else lookup d k')"
  by (induction d) auto

lemma positive_of_bool: "map (\<lambda>b. positive (Some (if b then 1 else 0))) bs = bs"
  by (induction bs) (simp_all add: positive_def)

lemma gt_zero_cells: "gt_zero a = Bool (map positive (cells a))"
proof (cases a)
  case (Float64 xs)
  then show ?thesis by (simp add: positive_def)
next
  case (Int16 ws)
  have "(0 < sint w) = positive (Some (real_of_int (sint w)))" for w :: "16 word"
    by (simp add: positive_def del: of_int_sint)
  with Int16 show ?thesis by (simp del: of_int_sint)
next
  case (Bool bs)
  then show ?thesis by (simp add: comp_def positive_of_bool)
qed

lemma int16_cast_back: "float_to_int16 ovf (Some (real_of_int (sint (w :: 16 word)))) = w"
proof -
  have "- 32768 \<le> sint w" "sint w < 32768"
    using sint_ge [of w] sint_lt [of w] by simp_all
  have lo: "- 32769 < real_of_int (sint w)"
    using \<open>- 32768 \<le> sint w\<close> by linarith
  have hi: "real_of_int (sint w) < 32768"
    using \<open>sint w < 32768\<close> by linarith
  have wb: "(word_of_int (sint w) :: 16 word) = w" by simp
  from lo hi wb show ?thesis
    by (simp add: float_to_int16_def del: of_int_sint)
qed

lemma int16_cast_all:
  "map (\<lambda>w. float_to_int16 ovf (Some (real_of_int (sint w)))) ws = (ws :: 16 word list)"
  by (induction ws) (simp_all add: int16_cast_back del: of_int_sint)

lemma bool_cast_all:
  "map (\<lambda>b. float_to_int16 ovf (Some (if b then 1 else 0))) bs = map (\<lambda>b. if b then 1 else 0) bs"
  by (induction bs) (simp_all add: float_to_int16_def)

lemma astype_int16_cells: "astype_int16 ovf a = Int16 (map (float_to_int16 ovf) (cells a))"
proof (cases a)
  case (Float64 xs)
  then show ?thesis by simp
next
  case (Int16 ws)
  then show ?thesis by (simp add: comp_def int16_cast_all del: of_int_sint)
next
  case (Bool bs)
  then show ?thesis by (simp add: comp_def bool_cast_all)
qed

lemma convert_lookup:
  assumes "convert g cs d = Inr d'" "distinct cs"
  shows "lookup d' k = (if k \<in> set cs then map_option g (lookup d k) else lookup d k)"
    and "k \<in> set cs \<Longrightarrow> lookup d k \<noteq> None"
  using assms
proof (induction cs arbitrary: d)
  case Nil
  {
    case 1
    then show ?case by simp
  next
    case 2
    then show ?case by simp
  }
next
  case (Cons c cs)
  {
    case 1
    then obtain a where a: "lookup d c = Some a"
      and rest: "convert g cs (dict_set d c (g a)) = Inr d'"
      by (auto simp: getitem_def split: option.splits)
    from 1 have dist: "distinct cs" "c \<notin> set cs" by simp_all
    from Cons.IH(1) [OF rest dist(1)] a dist show ?case
      by (auto simp: lookup_dict_set)
  next
    case 2
    then obtain a where a: "lookup d c = Some a"
      and rest: "convert g cs (dict_set d c (g a)) = Inr d'"
      by (auto simp: getitem_def split: option.splits)
    from 2 have dist: "distinct cs" "c \<notin> set cs" by simp_all
    from Cons.IH(2) [OF _ rest dist(1)] 2(1) a dist show ?case
      by (auto simp: lookup_dict_set split: if_splits)
  }
qed

lemma lookup_map_Name: "lookup (map (\<lambda>(c, a). (Name c, a)) d) (Name k) = lookup d k"
  by (induction d) auto

lemma two_conversions:
  assumes "lm = (if column \<in> set B then map_option g1 lr else lr)"
    and "ld = (if column \<in> set [st] then map_option g2 lm else lm)"
    and "st \<notin> set B"
  shows "ld = map_option (\<lambda>a. if column \<in> set B then g1 a
                               else if column = st then g2 a else a) lr"
  using assms by (cases lr) auto

lemma coerced_conversions:
  "(\<lambda>a. if column \<in> set [''reward'', ''state_lever'', ''tone''] then gt_zero a
        else if column = ''state_task'' then astype_int16 ovf a else a)
   = coerced ovf column"
  by (rule ext) (simp only: coerced_def gt_zero_cells astype_int16_cells)

text \<open>
  C4: when \<open>read_acquisition\<close> returns the table of a session that is not sensory, the
  four columns \<open>reward\<close>, \<open>state_lever\<close>, \<open>tone\<close> and \<open>state_task\<close> are there; the first
  three are boolean arrays whose cell is true exactly when the cell read from the
  container is greater than zero, \<open>state_task\<close> is the 16-bit signed integer cast of the
  array read, and every other column is the array read. For a sensory session every column
  is the array read.
\<close>

theorem read_acquisition_coercion:
  "(read_acquisition ovf f ds False = Inr tab \<longrightarrow>
      (\<exists>parent raw.
         lookup (processing f) ''downsampled'' = Some parent \<and>
         collect parent (map fst parent) [] = Inr raw \<and>
         (\<forall>column. lookup (cols tab) (Name column)
                    = map_option (coerced ovf column) (lookup raw column)) \<and>
         list_all (\<lambda>column. lookup raw column \<noteq> None)
           [''reward'', ''state_lever'', ''tone'', ''state_task''])) \<and>
   (read_acquisition ovf f ds True = Inr tab \<longrightarrow>
      (\<exists>parent raw.
         lookup (processing f) ''downsampled'' = Some parent \<and>
         collect parent (map fst parent) [] = Inr raw \<and>
         cols tab = map (\<lambda>(c, a). (Name c, a)) raw))"
proof (intro conjI impI)
  assume "read_acquisition ovf f ds False = Inr tab"
  then obtain parent raw mid data where
    p: "lookup (processing f) ''downsampled'' = Some parent"
    and r: "collect parent (map fst parent) [] = Inr raw"
    and m1: "convert gt_zero [''reward'', ''state_lever'', ''tone''] raw = Inr mid"
    and m2: "convert (astype_int16 ovf) [''state_task''] mid = Inr data"
    and c: "cols tab = map (\<lambda>(c, a). (Name c, a)) data"
    by (rule read_acquisition_task)
  have d1: "distinct [''reward'', ''state_lever'', ''tone'']" and d2: "distinct [''state_task'']"
    by simp_all
  have apart: "''state_task'' \<notin> set [''reward'', ''state_lever'', ''tone'']"
    by simp
  have look: "lookup (cols tab) (Name column) = map_option (coerced ovf column) (lookup raw column)"
    for column
  proof -
    have "lookup (cols tab) (Name column) = lookup data column"
      unfolding c by (rule lookup_map_Name)
    also have "\<dots> = map_option (\<lambda>a. if column \<in> set [''reward'', ''state_lever'', ''tone'']
                                       then gt_zero a
                                       else if column = ''state_task'' then astype_int16 ovf a
                                       else a) (lookup raw column)"
      by (rule two_conversions [OF convert_lookup(1) [OF m1 d1] convert_lookup(1) [OF m2 d2] apart])
    finally show ?thesis
      unfolding coerced_conversions .
  qed
  have in1: "''reward'' \<in> set [''reward'', ''state_lever'', ''tone'']"
    "''state_lever'' \<in> set [''reward'', ''state_lever'', ''tone'']"
    "''tone'' \<in> set [''reward'', ''state_lever'', ''tone'']"
    by simp_all
  have in2: "''state_task'' \<in> set [''state_task'']"
    by simp
  have "lookup mid ''state_task'' = lookup raw ''state_task''"
    using convert_lookup(1) [OF m1 d1, of "''state_task''"] apart by simp
  moreover have "lookup mid ''state_task'' \<noteq> None"
    by (rule convert_lookup(2) [OF m2 d2 in2])
  ultimately have t: "lookup raw ''state_task'' \<noteq> None"
    by simp
  have b: "lookup raw ''reward'' \<noteq> None" "lookup raw ''state_lever'' \<noteq> None"
    "lookup raw ''tone'' \<noteq> None"
    by (rule convert_lookup(2) [OF m1 d1 in1(1)], rule convert_lookup(2) [OF m1 d1 in1(2)],
        rule convert_lookup(2) [OF m1 d1 in1(3)])
  from b t have "list_all (\<lambda>column. lookup raw column \<noteq> None)
           [''reward'', ''state_lever'', ''tone'', ''state_task'']"
    by (simp only: list.pred_inject simp_thms)
  with p r look show "\<exists>parent raw.
         lookup (processing f) ''downsampled'' = Some parent \<and>
         collect parent (map fst parent) [] = Inr raw \<and>
         (\<forall>column. lookup (cols tab) (Name column)
                    = map_option (coerced ovf column) (lookup raw column)) \<and>
         list_all (\<lambda>column. lookup raw column \<noteq> None)
           [''reward'', ''state_lever'', ''tone'', ''state_task'']"
    by blast
next
  assume "read_acquisition ovf f ds True = Inr tab"
  then obtain parent raw where
    "lookup (processing f) ''downsampled'' = Some parent"
    "collect parent (map fst parent) [] = Inr raw"
    "cols tab = map (\<lambda>(c, a). (Name c, a)) raw"
    by (rule read_acquisition_sensory)
  then show "\<exists>parent raw.
         lookup (processing f) ''downsampled'' = Some parent \<and>
         collect parent (map fst parent) [] = Inr raw \<and>
         cols tab = map (\<lambda>(c, a). (Name c, a)) raw"
    by blast
qed

theorem read_acquisition_coercion_witness:
  "read_acquisition (\<lambda>x. 0) example_nwb True False = Inr example_daq \<and>
   (\<exists>parent raw.
      lookup (processing example_nwb) ''downsampled'' = Some parent \<and>
      collect parent (map fst parent) [] = Inr raw \<and>
      (\<forall>column. lookup (cols example_daq) (Name column)
                 = map_option (coerced (\<lambda>x. 0) column) (lookup raw column)) \<and>
      list_all (\<lambda>column. lookup raw column \<noteq> None)
        [''reward'', ''state_lever'', ''tone'', ''state_task'']) \<and>
   lookup (cols example_daq) (Name ''tone'') = Some (Bool [False, True]) \<and>
   lookup (cols example_daq) (Name ''state_task'') = Some (Int16 [1, 3]) \<and>
   read_acquisition (\<lambda>x. 0) example_nwb True True = Inr example_daq_raw \<and>
   (\<exists>parent raw.
      lookup (processing example_nwb) ''downsampled'' = Some parent \<and>
      collect parent (map fst parent) [] = Inr raw \<and>
      cols example_daq_raw = map (\<lambda>(c, a). (Name c, a)) raw)"
proof -
  have a: "read_acquisition (\<lambda>x. 0) example_nwb True False = Inr example_daq"
    by code_simp
  have b: "read_acquisition (\<lambda>x. 0) example_nwb True True = Inr example_daq_raw"
    by code_simp
  have c: "lookup (cols example_daq) (Name ''tone'') = Some (Bool [False, True])"
    "lookup (cols example_daq) (Name ''state_task'') = Some (Int16 [1, 3])"
    by code_simp+
  from read_acquisition_coercion [of "\<lambda>x. 0" example_nwb True example_daq]
    read_acquisition_coercion [of "\<lambda>x. 0" example_nwb True example_daq_raw] a b c
  show ?thesis by blast
qed

subsection \<open>stat\_summary on a table\<close>

lemma lookup_map_value:
  assumes "distinct (map fst kvs)" "(l, a) \<in> set kvs"
  shows "lookup (map (\<lambda>(l, a). (l, f a)) kvs) l = Some (f a)"
  using assms
proof (induction kvs)
  case Nil
  then show ?case by simp
next
  case (Cons kv kvs)
  obtain k v where kv: "kv = (k, v)" by (cases kv)
  show ?case
  proof (cases "k = l")
    case True
    have "v = a"
    proof (rule ccontr)
      assume "v \<noteq> a"
      with Cons.prems(2) kv True have "(l, a) \<in> set kvs" by simp
      then have "l \<in> fst ` set kvs" by force
      with Cons.prems(1) kv True show False by simp
    qed
    with kv True show ?thesis by simp
  next
    case False
    with Cons.prems kv have "distinct (map fst kvs)" "(l, a) \<in> set kvs" by auto
    from Cons.IH [OF this] kv False show ?thesis by simp
  qed
qed

lemma isna_sum_lookup:
  assumes "distinct (map fst (cols tab))" "(l, a) \<in> set (cols tab)"
  shows "lookup (isna_sum tab) l = Some (isna_count (cells a))"
  unfolding isna_sum_def using assms by (rule lookup_map_value)

lemma describe_selected_numeric:
  assumes "numeric_columns tab \<noteq> []"
  shows "describe_selected tab =
           Inr \<lparr>columns = [''mean'', ''std'', ''min'', ''max''],
                rows = map (\<lambda>(l, a). (l, [mean (present (cells a)), std (present (cells a)),
                                            minimum (present (cells a)),
                                            maximum (present (cells a))]))
                         (numeric_columns tab)\<rparr>"
proof -
  from assms have "cols tab \<noteq> []"
    unfolding numeric_columns_def by auto
  with assms show ?thesis
    unfolding describe_selected_def numeric_columns_def by simp
qed


lemma assign_nan_count:
  assumes "distinct (map fst (cols tab))"
  shows "assign_column
           \<lparr>columns = [''mean'', ''std'', ''min'', ''max''],
            rows = map (\<lambda>(l, a). (l, [mean (present (cells a)), std (present (cells a)),
                                        minimum (present (cells a)),
                                        maximum (present (cells a))]))
                     (numeric_columns tab)\<rparr>
           ''nan_count'' (isna_sum tab)
         = numeric_summary tab"
proof -
  have "(case x of (l, a) \<Rightarrow>
           (l, [mean (present (cells a)), std (present (cells a)), minimum (present (cells a)),
                maximum (present (cells a))] @
               [case lookup (isna_sum tab) l of None \<Rightarrow> None | Some k \<Rightarrow> Some (real k)]))
        = (case x of (l, a) \<Rightarrow> (l, summary_row a))"
    if "x \<in> set (numeric_columns tab)" for x
  proof -
    obtain l a where x: "x = (l, a)" by (cases x)
    with that have "(l, a) \<in> set (cols tab)"
      unfolding numeric_columns_def by simp
    from isna_sum_lookup [OF assms this] x show ?thesis
      by (simp add: summary_row_def)
  qed
  then have "map (\<lambda>x. case x of (l, a) \<Rightarrow>
           (l, [mean (present (cells a)), std (present (cells a)), minimum (present (cells a)),
                maximum (present (cells a))] @
               [case lookup (isna_sum tab) l of None \<Rightarrow> None | Some k \<Rightarrow> Some (real k)]))
          (numeric_columns tab)
        = map (\<lambda>x. case x of (l, a) \<Rightarrow> (l, summary_row a)) (numeric_columns tab)"
    by (rule map_cong [OF refl])
  then show ?thesis
    unfolding assign_column_def numeric_summary_def
    by (simp add: comp_def case_prod_unfold)
qed

lemma stat_summary_table:
  assumes "getattr s df_name = Inr (TableV (Some tab))"
    and "numeric_columns tab \<noteq> []"
    and "distinct (map fst (cols tab))"
  shows "stat_summary s df_name nwb_path verbose =
           Inr (Some (numeric_summary tab),
                if verbose
                then [Line (df_name @ '' summary for '' @ str_of nwb_path),
                      Frame (numeric_summary tab), Line []]
                else [])"
  unfolding stat_summary_def
  by (simp add: assms(1) describe_selected_numeric [OF assms(2)] assign_nan_count [OF assms(3)])







subsection \<open>sanity\_check\_nwb on a session with a missing table\<close>

lemma stat_summary_missing:
  assumes "getattr s df_name = Inr (TableV None)"
  shows "stat_summary s df_name (Some nwb_path) True =
           Inr (None, [Line (''***no '' @ df_name @ '' found in '' @ nwb_path), Line []])"
  using assms by (simp add: stat_summary_def str_of_def)

lemma stat_summary_summarised:
  assumes "summarised s df_name tab"
  shows "stat_summary s df_name (Some nwb_path) True =
           Inr (Some (numeric_summary tab), report nwb_path df_name tab)"
proof -
  from assms have a: "getattr s df_name = Inr (TableV (Some tab))"
    and b: "numeric_columns tab \<noteq> []" and c: "distinct (map fst (cols tab))"
    unfolding summarised_def by simp_all
  from stat_summary_table [OF a b c, of "Some nwb_path" True] show ?thesis
    by (simp add: report_def str_of_def)
qed

lemma write_blocks_until_missing:
  assumes "list_all2 (summarised s) pre tabs" "getattr s n = Inr (TableV None)"
  shows "write_blocks s nwb_path (pre @ n # post) fl console =
           (Some (AttributeError ''to_string''),
            fl @ concat (map2 block pre tabs) @ [Text (header n)],
            console @ concat (map2 (report nwb_path) pre tabs)
              @ [Line (''***no '' @ n @ '' found in '' @ nwb_path), Line []])"
  using assms(1)
proof (induction arbitrary: fl console rule: list_all2_induct)
  case Nil
  show ?case
    by (simp add: stat_summary_missing [OF assms(2)] header_def)
next
  case (Cons m pre tab tabs)
  have "write_blocks s nwb_path ((m # pre) @ n # post) fl console =
          write_blocks s nwb_path (pre @ n # post) (fl @ block m tab)
            (console @ report nwb_path m tab)"
    by (simp add: stat_summary_summarised [OF Cons.hyps(1)] block_def header_def)
  then show ?case
    unfolding Cons.IH by simp
qed

lemma load_from_file_found:
  assumes "fst (load_from_file ovf fs nwb_path ds isResting isSensory) = Inr s"
  shows "lookup fs nwb_path \<noteq> None"
proof
  assume "lookup fs nwb_path = None"
  then have "fst (load_from_file ovf fs nwb_path ds isResting isSensory)
               = Inl (FileNotFoundError nwb_path)"
    by (simp add: load_from_file_def with_NWBHDF5IO_def)
  with assms show False by simp
qed

lemma sanity_check_nwb_loaded:
  assumes "fst (load_from_file ovf fs nwb_path True isResting isSensory) = Inr s"
  shows "raised (sanity_check_nwb ovf fs nwb_path out isResting isSensory)
           = fst (write_blocks s nwb_path (df_name_list isSensory) [] [])"
    and "map snd (written (sanity_check_nwb ovf fs nwb_path out isResting isSensory))
           = [fst (snd (write_blocks s nwb_path (df_name_list isSensory) [] []))]"
    and "printed (sanity_check_nwb ovf fs nwb_path out isResting isSensory)
           = snd (snd (write_blocks s nwb_path (df_name_list isSensory) [] []))"
proof -
  obtain io where l: "load_from_file ovf fs nwb_path True isResting isSensory = (Inr s, io)"
    using assms by (cases "load_from_file ovf fs nwb_path True isResting isSensory") simp
  obtain r fl console where
    w: "write_blocks s nwb_path (df_name_list isSensory) [] [] = (r, fl, console)"
    by (cases "write_blocks s nwb_path (df_name_list isSensory) [] []")
  from load_from_file_found [OF assms] obtain nwb where f: "lookup fs nwb_path = Some nwb"
    by blast
  show "raised (sanity_check_nwb ovf fs nwb_path out isResting isSensory)
           = fst (write_blocks s nwb_path (df_name_list isSensory) [] [])"
    unfolding sanity_check_nwb_def by (simp add: f l w)
  show "map snd (written (sanity_check_nwb ovf fs nwb_path out isResting isSensory))
           = [fst (snd (write_blocks s nwb_path (df_name_list isSensory) [] []))]"
    unfolding sanity_check_nwb_def by (simp add: f l w)
  show "printed (sanity_check_nwb ovf fs nwb_path out isResting isSensory)
           = snd (snd (write_blocks s nwb_path (df_name_list isSensory) [] []))"
    unfolding sanity_check_nwb_def by (simp add: f l w)
qed

text \<open>
  C3: the specification states that \<open>sanity_check_nwb\<close> does not raise on a session with
  a field that is \<open>None\<close> and writes a block for every other field. The code raises: when
  the fields before the first missing one are summarised, it writes their blocks and the
  label of the missing field, prints the absence, and then raises \<open>AttributeError\<close> at
  \<open>summary.to_string\<close>; nothing is written for the fields that follow.
\<close>

theorem sanity_check_nwb_missing_field:
  "fst (load_from_file ovf fs nwb_path True isResting isSensory) = Inr s \<and>
   df_name_list isSensory = pre @ n # post \<and>
   list_all2 (summarised s) pre tabs \<and>
   getattr s n = Inr (TableV None) \<longrightarrow>
     raised (sanity_check_nwb ovf fs nwb_path out isResting isSensory)
       = Some (AttributeError ''to_string'') \<and>
     map snd (written (sanity_check_nwb ovf fs nwb_path out isResting isSensory))
       = [concat (map2 block pre tabs) @ [Text (header n)]] \<and>
     printed (sanity_check_nwb ovf fs nwb_path out isResting isSensory)
       = concat (map2 (report nwb_path) pre tabs)
           @ [Line (''***no '' @ n @ '' found in '' @ nwb_path), Line []]"
proof (intro impI)
  assume a: "fst (load_from_file ovf fs nwb_path True isResting isSensory) = Inr s \<and>
   df_name_list isSensory = pre @ n # post \<and>
   list_all2 (summarised s) pre tabs \<and>
   getattr s n = Inr (TableV None)"
  then have l: "fst (load_from_file ovf fs nwb_path True isResting isSensory) = Inr s"
    and d: "df_name_list isSensory = pre @ n # post"
    and p: "list_all2 (summarised s) pre tabs"
    and g: "getattr s n = Inr (TableV None)"
    by simp_all
  show "raised (sanity_check_nwb ovf fs nwb_path out isResting isSensory)
       = Some (AttributeError ''to_string'') \<and>
     map snd (written (sanity_check_nwb ovf fs nwb_path out isResting isSensory))
       = [concat (map2 block pre tabs) @ [Text (header n)]] \<and>
     printed (sanity_check_nwb ovf fs nwb_path out isResting isSensory)
       = concat (map2 (report nwb_path) pre tabs)
           @ [Line (''***no '' @ n @ '' found in '' @ nwb_path), Line []]"
    unfolding sanity_check_nwb_loaded [OF l] d write_blocks_until_missing [OF p g]
    by simp
qed

theorem sanity_check_nwb_missing_field_witness:
  "fst (load_from_file (\<lambda>x. 0) example_fs ''m1_2021-01-05_task-day1.nwb'' True False False)
     = Inr example_session \<and>
   df_name_list False
     = [''rois'', ''daq''] @ ''body_video_tracking''
         # [''face_video_tracking'', ''eye_video_tracking'', ''pupil_tracking''] \<and>
   list_all2 (summarised example_session) [''rois'', ''daq''] [example_rois, example_daq] \<and>
   getattr example_session ''body_video_tracking'' = Inr (TableV None) \<and>
   raised (sanity_check_nwb (\<lambda>x. 0) example_fs ''m1_2021-01-05_task-day1.nwb'' None False False)
     = Some (AttributeError ''to_string'') \<and>
   map snd (written (sanity_check_nwb (\<lambda>x. 0) example_fs ''m1_2021-01-05_task-day1.nwb'' None
                       False False))
     = [[Text (header ''rois''), Rendered (numeric_summary example_rois),
         Text (header ''daq''), Rendered (numeric_summary example_daq),
         Text (header ''body_video_tracking'')]] \<and>
   header ''body_video_tracking'' = ''\<newline>\<newline>\<newline>BODY_VIDEO_TRACKING summary\<newline>''"
proof -
  have l: "fst (load_from_file (\<lambda>x. 0) example_fs ''m1_2021-01-05_task-day1.nwb'' True False False)
     = Inr example_session"
    by code_simp
  have d: "df_name_list False
     = [''rois'', ''daq''] @ ''body_video_tracking''
         # [''face_video_tracking'', ''eye_video_tracking'', ''pupil_tracking'']"
    by (simp add: df_name_list_def)
  have s1: "summarised example_session ''rois'' example_rois"
    by code_simp
  have s2: "summarised example_session ''daq'' example_daq"
    by code_simp
  from s1 s2 have p: "list_all2 (summarised example_session) [''rois'', ''daq'']
      [example_rois, example_daq]"
    by simp
  have g: "getattr example_session ''body_video_tracking'' = Inr (TableV None)"
    by code_simp
  have h: "header ''body_video_tracking'' = ''\<newline>\<newline>\<newline>BODY_VIDEO_TRACKING summary\<newline>''"
    by code_simp
  from sanity_check_nwb_missing_field [of "\<lambda>x. 0" example_fs "''m1_2021-01-05_task-day1.nwb''"
      False False example_session "[''rois'', ''daq'']" "''body_video_tracking''"
      "[''face_video_tracking'', ''eye_video_tracking'', ''pupil_tracking'']"
      "[example_rois, example_daq]" None] l d p g
  have "raised (sanity_check_nwb (\<lambda>x. 0) example_fs ''m1_2021-01-05_task-day1.nwb'' None False False)
     = Some (AttributeError ''to_string'') \<and>
   map snd (written (sanity_check_nwb (\<lambda>x. 0) example_fs ''m1_2021-01-05_task-day1.nwb'' None
                       False False))
     = [concat (map2 block [''rois'', ''daq''] [example_rois, example_daq])
          @ [Text (header ''body_video_tracking'')]]"
    by blast
  then have "raised (sanity_check_nwb (\<lambda>x. 0) example_fs ''m1_2021-01-05_task-day1.nwb'' None False False)
     = Some (AttributeError ''to_string'') \<and>
   map snd (written (sanity_check_nwb (\<lambda>x. 0) example_fs ''m1_2021-01-05_task-day1.nwb'' None
                       False False))
     = [[Text (header ''rois''), Rendered (numeric_summary example_rois),
         Text (header ''daq''), Rendered (numeric_summary example_daq),
         Text (header ''body_video_tracking'')]]"
    by (simp add: block_def)
  with l d p g h show ?thesis by blast
qed

end
